theory Spec2Isabelle
  imports Complex_Main "HOL-Library.List_Lexorder"
begin

section \<open>Text\<close>

text \<open>
  A Python \<open>str\<close> is a sequence of Unicode code points; it is modelled as a list of
  code points. The Unicode property tables used by \<open>str.strip\<close>, \<open>str.lower\<close>,
  \<open>str.upper\<close>, \<open>unicodedata.normalize\<close>, \<open>unicodedata.combining\<close> and the regular
  expression classes \<open>\s\<close> and \<open>\d\<close> are transcribed for the range U+0000 to U+00FF
  (the Latin-1 range of the Portuguese headers and cell texts this program reads),
  together with the combining marks that the decompositions of that range produce.
  The white-space table is the complete one. A code point above U+00FF is treated as
  a caseless symbol without decomposition that is neither a digit nor a combining mark.
\<close>

type_synonym ustr = "nat list"

definition U :: "string \<Rightarrow> ustr" where
  "U s = map of_char s"

definition isspace :: "nat \<Rightarrow> bool" where
  "isspace c = ((9 \<le> c \<and> c \<le> 13) \<or> (28 \<le> c \<and> c \<le> 32) \<or> c = 133 \<or> c = 160
     \<or> c = 5760 \<or> (8192 \<le> c \<and> c \<le> 8202) \<or> c = 8232 \<or> c = 8233 \<or> c = 8239
     \<or> c = 8287 \<or> c = 12288)"

definition isdecimal :: "nat \<Rightarrow> bool" where
  "isdecimal c = (48 \<le> c \<and> c \<le> 57)"

definition py_strip :: "ustr \<Rightarrow> ustr" where
  "py_strip s = rev (dropWhile isspace (rev (dropWhile isspace s)))"

definition lower_cp :: "nat \<Rightarrow> nat" where
  "lower_cp c = (if (65 \<le> c \<and> c \<le> 90) \<or> (192 \<le> c \<and> c \<le> 222 \<and> c \<noteq> 215)
                 then c + 32 else c)"

definition py_lower :: "ustr \<Rightarrow> ustr" where
  "py_lower s = map lower_cp s"

definition upper_cp :: "nat \<Rightarrow> ustr" where
  "upper_cp c = (if (97 \<le> c \<and> c \<le> 122) \<or> (224 \<le> c \<and> c \<le> 254 \<and> c \<noteq> 247)
                 then [c - 32]
                 else if c = 223 then [83, 83]
                 else if c = 255 then [376]
                 else if c = 181 then [924]
                 else [c])"

definition py_upper :: "ustr \<Rightarrow> ustr" where
  "py_upper s = concat (map upper_cp s)"

text \<open>\<open>s.replace(old, new)\<close>: every non-overlapping occurrence, from the left.\<close>

function py_replace :: "ustr \<Rightarrow> ustr \<Rightarrow> ustr \<Rightarrow> ustr" where
  "py_replace old new s =
     (if old = [] then concat (map (\<lambda>c. new @ [c]) s) @ new
      else if s = [] then []
      else if take (length old) s = old
        then new @ py_replace old new (drop (length old) s)
      else hd s # py_replace old new (tl s))"
  by pat_completeness auto
termination
  by (relation "measure (\<lambda>(old, new, s). length s)") (auto simp: neq_Nil_conv)

declare py_replace.simps [simp del]

text \<open>\<open>s.rfind(c)\<close> for a one-character needle: the highest index, or \<open>-1\<close>.\<close>

fun rfind_from :: "int \<Rightarrow> ustr \<Rightarrow> nat \<Rightarrow> int" where
  "rfind_from i [] c = -1"
| "rfind_from i (x # xs) c =
     (let r = rfind_from (i + 1) xs c in
      if r \<noteq> -1 then r else if x = c then i else -1)"

definition rfind :: "ustr \<Rightarrow> nat \<Rightarrow> int" where
  "rfind s c = rfind_from 0 s c"

text \<open>Decimal rendering of an integer, as \<open>str(int)\<close> prints it.\<close>

fun nat_digits :: "nat \<Rightarrow> ustr" where
  "nat_digits n = (if n < 10 then [48 + n] else nat_digits (n div 10) @ [48 + n mod 10])"

declare nat_digits.simps [simp del]

definition int_str :: "int \<Rightarrow> ustr" where
  "int_str i = (if i < 0 then 45 # nat_digits (nat (- i)) else nat_digits (nat i))"

section \<open>Cell values\<close>

text \<open>
  The values a spreadsheet cell holds after \<open>pandas.read_excel\<close>, and the values the
  parsers put back: \<open>None\<close>, \<open>str\<close>, \<open>bool\<close>, \<open>int\<close>, \<open>float\<close> (with NaN and the
  infinities), \<open>pandas.Timestamp\<close> and \<open>pandas.NaT\<close>. A finite float is carried by the
  exact number it denotes; binary64 rounding and overflow are not modelled.
\<close>

datatype pyfloat = Fin rat | PosInf | NegInf | FNaN

datatype timestamp =
  Timestamp (ts_year: nat) (ts_month: nat) (ts_day: nat)
            (ts_hour: nat) (ts_minute: nat) (ts_second: nat)

datatype pyval =
    PyNone
  | PyStr ustr
  | PyBool bool
  | PyInt int
  | PyFloat pyfloat
  | PyTs timestamp
  | PyNaT

text \<open>
  Library behaviour that is not part of this repository is a parameter of the model:
  how \<open>str\<close> prints a finite float and a Timestamp, and the two calls of
  \<open>pandas.to_datetime\<close> with \<open>errors="coerce"\<close> (which return \<open>NaT\<close>, here \<open>None\<close>,
  instead of raising).
\<close>

record pylib =
  float_str :: "rat \<Rightarrow> ustr"
  ts_str :: "timestamp \<Rightarrow> ustr"
  to_datetime_dayfirst :: "ustr \<Rightarrow> timestamp option"
  to_datetime :: "ustr \<Rightarrow> timestamp option"

fun py_str :: "pylib \<Rightarrow> pyval \<Rightarrow> ustr" where
  "py_str L PyNone = U ''None''"
| "py_str L (PyStr s) = s"
| "py_str L (PyBool b) = (if b then U ''True'' else U ''False'')"
| "py_str L (PyInt i) = int_str i"
| "py_str L (PyFloat (Fin q)) = float_str L q"
| "py_str L (PyFloat PosInf) = U ''inf''"
| "py_str L (PyFloat NegInf) = U ''-inf''"
| "py_str L (PyFloat FNaN) = U ''nan''"
| "py_str L (PyTs t) = ts_str L t"
| "py_str L PyNaT = U ''NaT''"

text \<open>\<open>pd.isna\<close> and \<open>pd.notnull\<close> on a scalar.\<close>

fun isna :: "pyval \<Rightarrow> bool" where
  "isna PyNone = True"
| "isna (PyFloat FNaN) = True"
| "isna PyNaT = True"
| "isna _ = False"

text \<open>
  Exceptions. Every exception this program raises or catches is a \<open>ValueError\<close>; the
  payload says which one.
\<close>

datatype reason =
    BadFloatLiteral ustr
  | RequiredColumnsMissing "ustr list"
  | StrictIssues

datatype pyerr = ValueError reason

section \<open>Field parsers (normalize.py)\<close>

subsection \<open>Yes/no flags\<close>

definition SIM :: ustr where
  "SIM = U ''SIM''"

definition NAO_til :: ustr where
  "NAO_til = [78, 195, 79]"

definition yes_words :: "ustr list" where
  "yes_words = [U ''SIM'', U ''S'', U ''YES'', U ''Y'', U ''TRUE'', U ''1'']"

definition no_words :: "ustr list" where
  "no_words = [NAO_til, U ''NAO'', U ''N'', U ''NO'', U ''FALSE'', U ''0'', []]"

definition normalize_yes_no :: "pylib \<Rightarrow> pyval \<Rightarrow> pyerr + ustr" where
  "normalize_yes_no L v =
     (if v = PyNone \<or> v = PyFloat FNaN then Inr []
      else let s = py_upper (py_strip (py_str L v)) in
        if s \<in> set yes_words then Inr SIM
        else if s \<in> set no_words then Inr (if s \<noteq> [] then NAO_til else [])
        else Inr s)"

subsection \<open>Money\<close>

text \<open>
  \<open>float(s)\<close> on a string: surrounding white space is ignored; an optional sign; then
  \<open>inf\<close>, \<open>infinity\<close> or \<open>nan\<close> in any letter case, or a decimal number with an
  optional exponent, where single underscores may separate digits. Anything else raises
  \<open>ValueError\<close>.
\<close>

fun digitpart :: "ustr \<Rightarrow> ustr \<times> ustr" where
  "digitpart (c # u # d # r) =
     (if \<not> isdecimal c then ([], c # u # d # r)
      else if u = 95 \<and> isdecimal d
        then (case digitpart (d # r) of (ds, rest) \<Rightarrow> (c # ds, rest))
      else (case digitpart (u # d # r) of (ds, rest) \<Rightarrow> (c # ds, rest)))"
| "digitpart (c # cs) =
     (if \<not> isdecimal c then ([], c # cs)
      else (case digitpart cs of (ds, rest) \<Rightarrow> (c # ds, rest)))"
| "digitpart [] = ([], [])"

definition digits_val :: "ustr \<Rightarrow> nat" where
  "digits_val ds = foldl (\<lambda>a c. 10 * a + (c - 48)) 0 ds"

definition scale10 :: "nat \<Rightarrow> int \<Rightarrow> rat" where
  "scale10 m e = (if 0 \<le> e then of_nat m * 10 ^ nat e else of_nat m / 10 ^ nat (- e))"

definition float_exponent :: "ustr \<Rightarrow> int option" where
  "float_exponent r =
     (case r of
        [] \<Rightarrow> Some 0
      | c # r1 \<Rightarrow>
          if c = 101 \<or> c = 69 then
            (let (neg, r2) = (case r1 of
                                [] \<Rightarrow> (False, [])
                              | x # r' \<Rightarrow> if x = 45 then (True, r')
                                         else if x = 43 then (False, r') else (False, r1));
                 (ds, rest) = digitpart r2
             in if ds = [] \<or> rest \<noteq> [] then None
                else Some (if neg then - int (digits_val ds) else int (digits_val ds)))
          else None)"

definition float_number :: "ustr \<Rightarrow> rat option" where
  "float_number r =
     (let (ip, r1) = digitpart r;
          (dot, fp, r2) = (case r1 of
                             [] \<Rightarrow> (False, [], [])
                           | c # r' \<Rightarrow> if c = 46 then (case digitpart r' of (fp, r2) \<Rightarrow> (True, fp, r2))
                                      else (False, [], r1))
      in if ip = [] \<and> fp = [] then None
         else (case float_exponent r2 of
                 None \<Rightarrow> None
               | Some e \<Rightarrow> Some (scale10 (digits_val (ip @ fp)) (e - int (length fp)))))"

definition py_float :: "ustr \<Rightarrow> pyerr + pyfloat" where
  "py_float s =
     (let t = py_strip s;
          (neg, r) = (case t of
                        [] \<Rightarrow> (False, [])
                      | c # r' \<Rightarrow> if c = 45 then (True, r')
                                 else if c = 43 then (False, r') else (False, t));
          w = py_lower r
      in if w = U ''inf'' \<or> w = U ''infinity'' then Inr (if neg then NegInf else PosInf)
         else if w = U ''nan'' then Inr FNaN
         else (case float_number r of
                 None \<Rightarrow> Inl (ValueError (BadFloatLiteral s))
               | Some q \<Rightarrow> Inr (Fin (if neg then - q else q))))"

definition money_separators :: "ustr \<Rightarrow> ustr" where
  "money_separators s =
     (if 46 \<in> set s \<and> 44 \<in> set s then
        (let last_dot = rfind s 46; last_comma = rfind s 44
         in if last_comma > last_dot
            then py_replace [44] [46] (py_replace [46] [] s)
            else py_replace [44] [] s)
      else if 44 \<in> set s \<and> 46 \<notin> set s
        then py_replace [44] [46] (py_replace [46] [] s)
      else s)"

definition parse_money_mixed :: "pylib \<Rightarrow> pyval \<Rightarrow> pyerr + pyfloat option" where
  "parse_money_mixed L v =
     (if v = PyNone then Inr None
      else let s = py_strip (py_str L v) in
        if s = [] then Inr None
        else let s1 = py_replace [32] [] (py_replace (U ''R$'') [] s);
                 s2 = money_separators s1
             in (case py_float s2 of
                   Inr x \<Rightarrow> Inr (Some x)
                 | Inl (ValueError e) \<Rightarrow> Inr None))"

subsection \<open>Dates\<close>

text \<open>The pattern \<open>(\d{2}/\d{2}/\d{4})\<close> and its leftmost match, \<open>_RE_DATE.search\<close>.\<close>

fun date_at :: "ustr \<Rightarrow> bool" where
  "date_at (d1 # d2 # s1 # m1 # m2 # s2 # y1 # y2 # y3 # y4 # rest) =
     (isdecimal d1 \<and> isdecimal d2 \<and> s1 = 47 \<and> isdecimal m1 \<and> isdecimal m2 \<and> s2 = 47
      \<and> isdecimal y1 \<and> isdecimal y2 \<and> isdecimal y3 \<and> isdecimal y4)"
| "date_at _ = False"

fun re_date_search :: "ustr \<Rightarrow> ustr option" where
  "re_date_search [] = None"
| "re_date_search (c # cs) =
     (if date_at (c # cs) then Some (take 10 (c # cs)) else re_date_search cs)"

definition parse_date_mixed :: "pylib \<Rightarrow> pyval \<Rightarrow> pyerr + timestamp option" where
  "parse_date_mixed L v =
     (if v = PyNone then Inr None
      else let s = py_strip (py_str L v) in
        if s = [] then Inr None
        else (case re_date_search s of
                Some m \<Rightarrow> Inr (to_datetime_dayfirst L m)
              | None \<Rightarrow> Inr (to_datetime L s)))"

text \<open>
  Modelled from the spec: \<open>pandas.to_datetime\<close> is a library function outside the
  repository. For the concrete dates of the specification its two uses are modelled as
  the specification words them: a \<open>DD/MM/YYYY\<close> text is read day first, and the general
  parse covers ISO \<open>YYYY-MM-DD\<close>, alone or followed by \<open>T\<close> or a blank and
  \<open>HH:MM:SS\<close>. A text that is not a calendar date gives \<open>NaT\<close>.
\<close>

definition leap_year :: "nat \<Rightarrow> bool" where
  "leap_year y = (y mod 4 = 0 \<and> (y mod 100 \<noteq> 0 \<or> y mod 400 = 0))"

definition days_in_month :: "nat \<Rightarrow> nat \<Rightarrow> nat" where
  "days_in_month y m =
     (if m = 2 then (if leap_year y then 29 else 28)
      else if m = 4 \<or> m = 6 \<or> m = 9 \<or> m = 11 then 30 else 31)"

definition mk_timestamp :: "nat \<Rightarrow> nat \<Rightarrow> nat \<Rightarrow> nat \<Rightarrow> nat \<Rightarrow> nat \<Rightarrow> timestamp option" where
  "mk_timestamp y m d hh mm ss =
     (if 1 \<le> m \<and> m \<le> 12 \<and> 1 \<le> d \<and> d \<le> days_in_month y m \<and> hh < 24 \<and> mm < 60 \<and> ss < 60
      then Some (Timestamp y m d hh mm ss) else None)"

definition spec_dayfirst :: "ustr \<Rightarrow> timestamp option" where
  "spec_dayfirst s =
     (if date_at s \<and> length s = 10
      then mk_timestamp (digits_val (drop 6 s)) (digits_val (take 2 (drop 3 s)))
             (digits_val (take 2 s)) 0 0 0
      else None)"

fun iso_date_at :: "ustr \<Rightarrow> bool" where
  "iso_date_at (y1 # y2 # y3 # y4 # s1 # m1 # m2 # s2 # d1 # d2 # rest) =
     (isdecimal y1 \<and> isdecimal y2 \<and> isdecimal y3 \<and> isdecimal y4 \<and> s1 = 45
      \<and> isdecimal m1 \<and> isdecimal m2 \<and> s2 = 45 \<and> isdecimal d1 \<and> isdecimal d2)"
| "iso_date_at _ = False"

fun iso_time_at :: "ustr \<Rightarrow> bool" where
  "iso_time_at [sep, h1, h2, c1, m1, m2, c2, s1, s2] =
     ((sep = 84 \<or> sep = 32) \<and> isdecimal h1 \<and> isdecimal h2 \<and> c1 = 58
      \<and> isdecimal m1 \<and> isdecimal m2 \<and> c2 = 58 \<and> isdecimal s1 \<and> isdecimal s2)"
| "iso_time_at _ = False"

definition spec_general :: "ustr \<Rightarrow> timestamp option" where
  "spec_general s =
     (if iso_date_at s \<and> length s = 10
      then mk_timestamp (digits_val (take 4 s)) (digits_val (take 2 (drop 5 s)))
             (digits_val (drop 8 s)) 0 0 0
      else if iso_date_at s \<and> iso_time_at (drop 10 s)
      then mk_timestamp (digits_val (take 4 s)) (digits_val (take 2 (drop 5 s)))
             (digits_val (take 2 (drop 8 s))) (digits_val (take 2 (drop 11 s)))
             (digits_val (take 2 (drop 14 s))) (digits_val (take 2 (drop 17 s)))
      else None)"

definition spec_dates :: "pylib \<Rightarrow> pylib" where
  "spec_dates L = L\<lparr>to_datetime_dayfirst := spec_dayfirst, to_datetime := spec_general\<rparr>"

section \<open>Column names (schema.py)\<close>

text \<open>
  \<open>unicodedata.normalize("NFKD", s)\<close>: the compatibility decomposition of each code
  point of the Latin-1 range, and \<open>unicodedata.combining\<close> on the marks U+0300 to
  U+036F (all have a non-zero combining class but U+034F).
\<close>

definition nfkd_table :: "(nat \<times> ustr) list" where
  "nfkd_table =
    [(160, [32]), (168, [32, 776]), (170, [97]), (175, [32, 772]), (178, [50]),
     (179, [51]), (180, [32, 769]), (181, [956]), (184, [32, 807]), (185, [49]),
     (186, [111]), (188, [49, 8260, 52]), (189, [49, 8260, 50]), (190, [51, 8260, 52]),
     (192, [65, 768]), (193, [65, 769]), (194, [65, 770]), (195, [65, 771]),
     (196, [65, 776]), (197, [65, 778]), (199, [67, 807]),
     (200, [69, 768]), (201, [69, 769]), (202, [69, 770]), (203, [69, 776]),
     (204, [73, 768]), (205, [73, 769]), (206, [73, 770]), (207, [73, 776]),
     (209, [78, 771]),
     (210, [79, 768]), (211, [79, 769]), (212, [79, 770]), (213, [79, 771]),
     (214, [79, 776]),
     (217, [85, 768]), (218, [85, 769]), (219, [85, 770]), (220, [85, 776]),
     (221, [89, 769]),
     (224, [97, 768]), (225, [97, 769]), (226, [97, 770]), (227, [97, 771]),
     (228, [97, 776]), (229, [97, 778]), (231, [99, 807]),
     (232, [101, 768]), (233, [101, 769]), (234, [101, 770]), (235, [101, 776]),
     (236, [105, 768]), (237, [105, 769]), (238, [105, 770]), (239, [105, 776]),
     (241, [110, 771]),
     (242, [111, 768]), (243, [111, 769]), (244, [111, 770]), (245, [111, 771]),
     (246, [111, 776]),
     (249, [117, 768]), (250, [117, 769]), (251, [117, 770]), (252, [117, 776]),
     (253, [121, 769]), (255, [121, 776])]"

definition nfkd_cp :: "nat \<Rightarrow> ustr" where
  "nfkd_cp c = (case map_of nfkd_table c of Some d \<Rightarrow> d | None \<Rightarrow> [c])"

definition nfkd :: "ustr \<Rightarrow> ustr" where
  "nfkd s = concat (map nfkd_cp s)"

definition combining :: "nat \<Rightarrow> bool" where
  "combining c = (768 \<le> c \<and> c \<le> 879 \<and> c \<noteq> 847)"

text \<open>\<open>re.sub\<close> of a pattern \<open>[class]+\<close>: every maximal run of the class is replaced.\<close>

function re_sub_runs :: "(nat \<Rightarrow> bool) \<Rightarrow> ustr \<Rightarrow> ustr \<Rightarrow> ustr" where
  "re_sub_runs P rep [] = []"
| "re_sub_runs P rep (c # cs) =
     (if P c then rep @ re_sub_runs P rep (dropWhile P cs)
      else c # re_sub_runs P rep cs)"
  by pat_completeness auto
termination
  by (relation "measure (\<lambda>(P, rep, s). length s)")
     (auto simp: le_imp_less_Suc length_dropWhile_le)

definition is_separator :: "nat \<Rightarrow> bool" where
  "is_separator c = (c = 95 \<or> c = 45 \<or> c = 47)"

definition is_key_char :: "nat \<Rightarrow> bool" where
  "is_key_char c = ((97 \<le> c \<and> c \<le> 122) \<or> (48 \<le> c \<and> c \<le> 57) \<or> c = 32)"

definition canon_col :: "ustr \<Rightarrow> ustr" where
  "canon_col name =
     (let s = py_lower (py_strip name);
          s = filter (\<lambda>ch. \<not> combining ch) (nfkd s);
          s = re_sub_runs is_separator [32] s;
          s = re_sub_runs (\<lambda>c. \<not> is_key_char c) [] s;
          s = py_strip (re_sub_runs isspace [32] s)
      in s)"

definition Cliente :: ustr where "Cliente = U ''Cliente''"
definition Contrato :: ustr where "Contrato = U ''Contrato''"
definition Taxa :: ustr where "Taxa = U ''Taxa''"
definition Emissao :: ustr where "Emissao = U ''Emiss'' @ [227, 111]"
definition Prazo :: ustr where "Prazo = U ''Prazo''"
definition Vlr_Liberado :: ustr where "Vlr_Liberado = U ''Vlr Liberado''"
definition Valor_Cancelado :: ustr where "Valor_Cancelado = U ''Valor Cancelado''"
definition VALOR_PAGO :: ustr where "VALOR_PAGO = U ''VALOR PAGO''"
definition Data_Pagamento :: ustr where "Data_Pagamento = U ''Data Pagamento''"
definition Pago :: ustr where "Pago = U ''Pago''"
definition TED_Devolvida :: ustr where "TED_Devolvida = U ''TED/Devolvida''"
definition Valor_Devolvido :: ustr where "Valor_Devolvido = U ''Valor Devolvido''"

definition COLUMN_ALIASES :: "(ustr \<times> ustr) list" where
  "COLUMN_ALIASES =
    [(U ''cliente'', Cliente),
     (U ''nome cliente'', Cliente),
     (U ''contrato'', Contrato),
     (U ''nr contrato'', Contrato),
     (U ''numero contrato'', Contrato),
     (U ''taxa'', Taxa),
     (U ''tx'', Taxa),
     (U ''emissao'', Emissao),
     (U ''emissao contrato'', Emissao),
     (U ''data emissao'', Emissao),
     (U ''data de emissao'', Emissao),
     (U ''prazo'', Prazo),
     (U ''prazo meses'', Prazo),
     (U ''vlr liberado'', Vlr_Liberado),
     (U ''valor liberado'', Vlr_Liberado),
     (U ''valor liberacao'', Vlr_Liberado),
     (U ''valor cancelado'', Valor_Cancelado),
     (U ''vlr cancelado'', Valor_Cancelado),
     (U ''valor pago'', VALOR_PAGO),
     (U ''vlr pago'', VALOR_PAGO),
     (U ''data pagamento'', Data_Pagamento),
     (U ''data do pagamento'', Data_Pagamento),
     (U ''pago'', Pago),
     (U ''ted devolvida'', TED_Devolvida),
     (U ''ted devolvido'', TED_Devolvida),
     (U ''teddevolvida'', TED_Devolvida),
     (U ''valor devolvido'', Valor_Devolvido),
     (U ''valor devolucao'', Valor_Devolvido)]"

text \<open>The set \<open>REQUIRED_COLUMNS\<close>, as a list without repetition.\<close>

definition REQUIRED_COLUMNS :: "ustr list" where
  "REQUIRED_COLUMNS = [Cliente, Contrato, Emissao, Vlr_Liberado]"

section \<open>Tables\<close>

text \<open>
  A \<open>pandas.DataFrame\<close> with the default row index \<open>0, 1, ...\<close> that \<open>read_excel\<close>
  gives: the column labels (as \<open>str\<close> prints them) and the rows, each row holding one
  cell per column. Tables are rectangular and, once renamed, have pairwise distinct
  labels; \<open>wf_dataframe\<close> says so.
\<close>

record dataframe =
  df_columns :: "ustr list"
  df_rows :: "pyval list list"

definition wf_dataframe :: "dataframe \<Rightarrow> bool" where
  "wf_dataframe df =
     (distinct (df_columns df) \<and> list_all (\<lambda>r. length r = length (df_columns df)) (df_rows df))"

fun col_index :: "ustr \<Rightarrow> ustr list \<Rightarrow> nat option" where
  "col_index c [] = None"
| "col_index c (x # xs) = (if x = c then Some 0 else map_option Suc (col_index c xs))"

text \<open>\<open>row.get(name)\<close>: the cell under the label, \<open>None\<close> when there is no such column.\<close>

definition row_get :: "ustr list \<Rightarrow> pyval list \<Rightarrow> ustr \<Rightarrow> pyval" where
  "row_get cols r name = (case col_index name cols of None \<Rightarrow> PyNone | Some i \<Rightarrow> r ! i)"

fun map_result :: "('a \<Rightarrow> 'e + 'b) \<Rightarrow> 'a list \<Rightarrow> 'e + 'b list" where
  "map_result f [] = Inr []"
| "map_result f (x # xs) =
     (case f x of
        Inl e \<Rightarrow> Inl e
      | Inr y \<Rightarrow> (case map_result f xs of Inl e \<Rightarrow> Inl e | Inr ys \<Rightarrow> Inr (y # ys)))"

definition bind_result :: "'e + 'a \<Rightarrow> ('a \<Rightarrow> 'e + 'b) \<Rightarrow> 'e + 'b" where
  "bind_result m f = (case m of Inl e \<Rightarrow> Inl e | Inr x \<Rightarrow> f x)"

definition series :: "dataframe \<Rightarrow> nat \<Rightarrow> pyval list" where
  "series df i = map (\<lambda>r. r ! i) (df_rows df)"

definition set_series :: "nat \<Rightarrow> pyval list \<Rightarrow> dataframe \<Rightarrow> dataframe" where
  "set_series i vs df = df\<lparr>df_rows := map (\<lambda>(r, v). r[i := v]) (zip (df_rows df) vs)\<rparr>"

text \<open>
  Two tables of the same shape (the same labels, as many rows, as many cells in each
  row) that agree on the column at position \<open>j\<close>.
\<close>

definition keeps_column :: "nat \<Rightarrow> dataframe \<Rightarrow> dataframe \<Rightarrow> bool" where
  "keeps_column j df df' =
     (df_columns df' = df_columns df \<and> map length (df_rows df') = map length (df_rows df)
      \<and> series df' j = series df j)"

text \<open>\<open>if col in df.columns: df[col] = df[col].apply(f)\<close>\<close>

definition apply_column ::
  "(pyval \<Rightarrow> pyerr + pyval) \<Rightarrow> ustr \<Rightarrow> dataframe \<Rightarrow> pyerr + dataframe" where
  "apply_column f col df =
     (case col_index col (df_columns df) of
        None \<Rightarrow> Inr df
      | Some i \<Rightarrow> bind_result (map_result f (series df i)) (\<lambda>vs. Inr (set_series i vs df)))"

fun apply_columns ::
  "(pyval \<Rightarrow> pyerr + pyval) \<Rightarrow> ustr list \<Rightarrow> dataframe \<Rightarrow> pyerr + dataframe" where
  "apply_columns f [] df = Inr df"
| "apply_columns f (col # cs) df = bind_result (apply_column f col df) (apply_columns f cs)"

section \<open>Normalization (normalize.py)\<close>

record col_stats =
  before_non_empty :: int
  after_non_empty :: int
  became_empty :: int

definition notna_count :: "pyval list \<Rightarrow> int" where
  "notna_count vs = int (length (filter (\<lambda>v. \<not> isna v) vs))"

text \<open>What a cell holds after a parser ran on it.\<close>

definition money_cell :: "pylib \<Rightarrow> pyval \<Rightarrow> pyerr + pyval" where
  "money_cell L v =
     bind_result (parse_money_mixed L v)
       (\<lambda>r. Inr (case r of None \<Rightarrow> PyNone | Some x \<Rightarrow> PyFloat x))"

definition date_cell :: "pylib \<Rightarrow> pyval \<Rightarrow> pyerr + pyval" where
  "date_cell L v =
     bind_result (parse_date_mixed L v)
       (\<lambda>r. Inr (case r of None \<Rightarrow> PyNone | Some t \<Rightarrow> PyTs t))"

definition flag_cell :: "pylib \<Rightarrow> pyval \<Rightarrow> pyerr + pyval" where
  "flag_cell L v = bind_result (normalize_yes_no L v) (\<lambda>s. Inr (PyStr s))"

text \<open>\<open>df["Contrato"].astype(str).str.strip()\<close>, cell by cell.\<close>

definition contract_cell :: "pylib \<Rightarrow> pyval \<Rightarrow> pyerr + pyval" where
  "contract_cell L v = Inr (PyStr (py_strip (py_str L v)))"

definition apply_with_stats ::
  "pyval list \<Rightarrow> (pyval \<Rightarrow> pyerr + pyval) \<Rightarrow> pyerr + pyval list \<times> col_stats" where
  "apply_with_stats vs func =
     (let n_before = notna_count vs in
      bind_result (map_result func vs)
        (\<lambda>out. let n_after = notna_count out in
           Inr (out, \<lparr>before_non_empty = n_before, after_non_empty = n_after,
                      became_empty = n_before - n_after\<rparr>)))"

text \<open>\<open>if col in df.columns: df[col], stats[col] = _apply_with_stats(df[col], f)\<close>\<close>

definition apply_column_stats ::
  "(pyval \<Rightarrow> pyerr + pyval) \<Rightarrow> ustr \<Rightarrow> dataframe \<times> (ustr \<times> col_stats) list
     \<Rightarrow> pyerr + dataframe \<times> (ustr \<times> col_stats) list" where
  "apply_column_stats f col ds =
     (case ds of (df, stats) \<Rightarrow>
       (case col_index col (df_columns df) of
          None \<Rightarrow> Inr (df, stats)
        | Some i \<Rightarrow>
            bind_result (apply_with_stats (series df i) f)
              (\<lambda>(out, st). Inr (set_series i out df, stats @ [(col, st)]))))"

definition rename_column :: "ustr \<Rightarrow> ustr" where
  "rename_column col =
     (case map_of COLUMN_ALIASES (canon_col col) of Some n \<Rightarrow> n | None \<Rightarrow> col)"

definition renamed_columns :: "dataframe \<Rightarrow> ustr list" where
  "renamed_columns df = map rename_column (map py_strip (df_columns df))"

definition missing_columns :: "dataframe \<Rightarrow> ustr list" where
  "missing_columns df = sort (filter (\<lambda>c. c \<notin> set (renamed_columns df)) REQUIRED_COLUMNS)"

text \<open>\<open>df.where(pd.notnull(df), None)\<close>\<close>

definition where_notnull :: "dataframe \<Rightarrow> dataframe" where
  "where_notnull df =
     df\<lparr>df_rows := map (map (\<lambda>v. if isna v then PyNone else v)) (df_rows df)\<rparr>"

definition normalize_dataframe ::
  "pylib \<Rightarrow> dataframe \<Rightarrow> pyerr + dataframe \<times> (ustr \<times> col_stats) list" where
  "normalize_dataframe L df =
     (let missing = missing_columns df in
      if missing \<noteq> [] then Inl (ValueError (RequiredColumnsMissing missing))
      else
        (let df1 = df\<lparr>df_columns := map py_strip (renamed_columns df)\<rparr> in
         bind_result (apply_column_stats (money_cell L) Taxa (df1, [])) (\<lambda>ds.
         bind_result (apply_column_stats (date_cell L) Emissao ds) (\<lambda>(df2, stats).
         bind_result (apply_column (date_cell L) Data_Pagamento df2) (\<lambda>df3.
         bind_result (apply_columns (money_cell L)
                        [Vlr_Liberado, Valor_Cancelado, VALOR_PAGO, Valor_Devolvido] df3) (\<lambda>df4.
         bind_result (apply_column (flag_cell L) Pago df4) (\<lambda>df5.
         bind_result (apply_column (flag_cell L) TED_Devolvida df5) (\<lambda>df6.
         bind_result (apply_column (contract_cell L) Contrato df6) (\<lambda>df7.
         Inr (where_notnull df7, stats))))))))))"

section \<open>Validation (validation.py)\<close>

definition ERROR :: ustr where "ERROR = U ''ERROR''"
definition WARN :: ustr where "WARN = U ''WARN''"

record issue =
  severity :: ustr
  row :: nat
  contrato :: "ustr option"
  cliente :: "ustr option"
  message :: ustr

definition Issue :: "ustr \<Rightarrow> nat \<Rightarrow> ustr option \<Rightarrow> ustr option \<Rightarrow> ustr \<Rightarrow> issue" where
  "Issue sev idx con cli msg =
     \<lparr>severity = sev, row = idx, contrato = con, cliente = cli, message = msg\<rparr>"

definition msg_contrato_vazio :: ustr where
  "msg_contrato_vazio = U ''Contrato vazio''"
definition msg_cliente_vazio :: ustr where
  "msg_cliente_vazio = U ''Cliente vazio''"
definition msg_pago_sem_data :: ustr where
  "msg_pago_sem_data = U ''Pago=SIM mas Data Pagamento vazio''"
definition msg_pago_sem_valor :: ustr where
  "msg_pago_sem_valor = U ''Pago=SIM mas VALOR PAGO vazio''"
definition msg_nao_pago_com_valor :: ustr where
  "msg_nao_pago_com_valor = U ''Pago!=SIM mas VALOR PAGO preenchido''"
definition msg_ted_sem_valor :: ustr where
  "msg_ted_sem_valor = U ''TED/Devolvida=SIM mas Valor Devolvido vazio''"

text \<open>The helper \<open>_s\<close>: the trimmed text of a value, \<open>None\<close> when absent or blank.\<close>

definition s_opt :: "pylib \<Rightarrow> pyval \<Rightarrow> ustr option" where
  "s_opt L val =
     (if val = PyNone then None
      else let s = py_strip (py_str L val) in if s \<noteq> [] then Some s else None)"

text \<open>Python's \<open>not x\<close> for an optional text.\<close>

definition py_not :: "ustr option \<Rightarrow> bool" where
  "py_not x = (x = None \<or> x = Some [])"

text \<open>The body of the loop over \<open>df.iterrows()\<close>, appending to \<open>issues\<close>.\<close>

definition check_row :: "pylib \<Rightarrow> ustr list \<Rightarrow> nat \<Rightarrow> pyval list \<Rightarrow> issue list \<Rightarrow> issue list" where
  "check_row L cols idx r issues =
     (let cli = s_opt L (row_get cols r Cliente);
          con = s_opt L (row_get cols r Contrato);
          pago = row_get cols r Pago;
          data_pag = row_get cols r Data_Pagamento;
          vlr_pago = row_get cols r VALOR_PAGO;
          ted = row_get cols r TED_Devolvida;
          vlr_dev = row_get cols r Valor_Devolvido;
          issues = (if py_not con
                    then issues @ [Issue ERROR idx None cli msg_contrato_vazio] else issues);
          issues = (if py_not cli
                    then issues @ [Issue ERROR idx con None msg_cliente_vazio] else issues);
          issues = (if pago = PyStr SIM then
                      (let issues = (if isna data_pag
                                     then issues @ [Issue ERROR idx con cli msg_pago_sem_data]
                                     else issues)
                       in (if isna vlr_pago
                           then issues @ [Issue ERROR idx con cli msg_pago_sem_valor]
                           else issues))
                    else issues);
          issues = (if pago \<noteq> PyStr SIM \<and> \<not> isna vlr_pago
                    then issues @ [Issue WARN idx con cli msg_nao_pago_com_valor] else issues);
          issues = (if ted = PyStr SIM \<and> isna vlr_dev
                    then issues @ [Issue ERROR idx con cli msg_ted_sem_valor] else issues)
      in issues)"

fun validate_rows ::
  "pylib \<Rightarrow> ustr list \<Rightarrow> nat \<Rightarrow> pyval list list \<Rightarrow> issue list \<Rightarrow> issue list" where
  "validate_rows L cols idx [] issues = issues"
| "validate_rows L cols idx (r # rs) issues =
     validate_rows L cols (Suc idx) rs (check_row L cols idx r issues)"

definition validate_dataframe :: "pylib \<Rightarrow> dataframe \<Rightarrow> issue list" where
  "validate_dataframe L df = validate_rows L (df_columns df) 0 (df_rows df) []"

definition has_errors :: "issue list \<Rightarrow> bool" where
  "has_errors issues = list_ex (\<lambda>i. severity i = ERROR) issues"

section \<open>Run artifacts (run_artifacts.py) and the pipeline\<close>

text \<open>
  The file system: the directories that exist and the files with their contents. A
  path is the list of its components. Input and output failures of the operating
  system are not modelled.
\<close>

type_synonym path = "ustr list"

record RunSummary =
  started_at :: ustr
  input_file :: path
  output_file :: path
  rows :: nat
  cols :: nat
  num_errors :: nat
  num_warn :: nat
  summary_notes :: "(ustr \<times> col_stats) list"

datatype artifact =
    Workbook dataframe bool
  | IssuesCsv "issue list"
  | SummaryJson RunSummary

record filesystem =
  dirs :: "path set"
  files :: "path \<rightharpoonup> artifact"

text \<open>The two readings of \<open>datetime.now()\<close>: the run directory's name and \<open>started_at\<close>.\<close>

record clock =
  run_stamp :: ustr
  start_iso :: ustr

definition path_parent :: "path \<Rightarrow> path" where
  "path_parent p = butlast p"

definition path_name :: "path \<Rightarrow> ustr" where
  "path_name p = (if p = [] then [] else last p)"

text \<open>\<open>p.mkdir(parents=True, exist_ok=True)\<close>\<close>

definition mkdir_parents :: "path \<Rightarrow> filesystem \<Rightarrow> filesystem" where
  "mkdir_parents p fs = fs\<lparr>dirs := dirs fs \<union> set (map (\<lambda>n. take n p) [0..<Suc (length p)])\<rparr>"

definition make_run_dir :: "ustr \<Rightarrow> path \<Rightarrow> filesystem \<Rightarrow> path \<times> filesystem" where
  "make_run_dir ts base_output_dir fs =
     (let run_dir = base_output_dir @ [U ''runs'', ts]
      in (run_dir, mkdir_parents run_dir fs))"

definition write_summary :: "RunSummary \<Rightarrow> path \<Rightarrow> filesystem \<Rightarrow> filesystem" where
  "write_summary summary p fs =
     (let fs1 = mkdir_parents (path_parent p) fs
      in fs1\<lparr>files := (files fs1)(p \<mapsto> SummaryJson summary)\<rparr>)"

definition write_issues_csv :: "issue list \<Rightarrow> path \<Rightarrow> filesystem \<Rightarrow> bool \<times> filesystem" where
  "write_issues_csv issues p fs =
     (if issues = [] then (False, fs\<lparr>files := (files fs)(p := None)\<rparr>)
      else (let fs1 = mkdir_parents (path_parent p) fs
            in (True, fs1\<lparr>files := (files fs1)(p \<mapsto> IssuesCsv issues)\<rparr>)))"

text \<open>\<open>df2.to_excel(run_output, index=False)\<close> and \<open>_format_excel(run_output)\<close>\<close>

definition to_excel :: "dataframe \<Rightarrow> path \<Rightarrow> filesystem \<Rightarrow> filesystem" where
  "to_excel df p fs = fs\<lparr>files := (files fs)(p \<mapsto> Workbook df False)\<rparr>"

definition format_excel :: "path \<Rightarrow> filesystem \<Rightarrow> filesystem" where
  "format_excel p fs =
     (case files fs p of
        Some (Workbook df fmt) \<Rightarrow> fs\<lparr>files := (files fs)(p \<mapsto> Workbook df True)\<rparr>
      | _ \<Rightarrow> fs)"

text \<open>
  \<open>normalize_excel\<close>. The table \<open>df\<close> is what \<open>pd.read_excel(input_path)\<close> returned. The
  result is the exception raised, if any, and the file system the run leaves.
\<close>

definition normalize_excel ::
  "pylib \<Rightarrow> clock \<Rightarrow> dataframe \<Rightarrow> path \<Rightarrow> path \<Rightarrow> bool \<Rightarrow> filesystem
     \<Rightarrow> (pyerr + unit) \<times> filesystem" where
  "normalize_excel L clk df input_path output_path strict fs =
     (case normalize_dataframe L df of
        Inl e \<Rightarrow> (Inl e, fs)
      | Inr (df2, transform_stats) \<Rightarrow>
          (let (run_dir, fs1) = make_run_dir (run_stamp clk) (path_parent output_path) fs;
               run_output = run_dir @ [path_name output_path];
               issues_path = run_dir @ [U ''issues.csv''];
               summary_path = run_dir @ [U ''summary.json''];
               issues = validate_dataframe L df2;
               (has_any, fs2) = write_issues_csv issues issues_path fs1;
               n_errors = length (filter (\<lambda>i. severity i = ERROR) issues);
               n_warn = length (filter (\<lambda>i. severity i = WARN) issues)
           in if has_any \<and> strict \<and> has_errors issues
              then (Inl (ValueError StrictIssues), fs2)
              else
                (let fs3 = to_excel df2 run_output fs2;
                     fs4 = format_excel run_output fs3;
                     summary = \<lparr>started_at = start_iso clk, input_file = input_path,
                                 output_file = run_output, rows = length (df_rows df2),
                                 cols = length (df_columns df2), num_errors = n_errors,
                                 num_warn = n_warn, summary_notes = transform_stats\<rparr>;
                     fs5 = write_summary summary summary_path fs4
                 in (Inr (), fs5))))"

section \<open>The specification's wording, for comparison\<close>

subsection \<open>Money: the last separator decides\<close>

text \<open>
  The specification: when the text has both \<open>.\<close> and \<open>,\<close>, whichever appears last is
  the decimal separator; a text with \<open>,\<close> only has it as the decimal separator; any
  other text is parsed as it is.
\<close>

definition spec_last_separator :: "ustr \<Rightarrow> nat option" where
  "spec_last_separator s =
     (case filter (\<lambda>c. c = 46 \<or> c = 44) s of [] \<Rightarrow> None | x # xs \<Rightarrow> Some (last (x # xs)))"

definition comma_to_dot :: "ustr \<Rightarrow> ustr" where
  "comma_to_dot s = map (\<lambda>c. if c = 44 then 46 else c) s"

definition spec_money_text :: "ustr \<Rightarrow> ustr" where
  "spec_money_text s =
     (if 46 \<in> set s \<and> 44 \<in> set s then
        (if spec_last_separator s = Some 44
         then comma_to_dot (filter (\<lambda>c. c \<noteq> 46) s)
         else filter (\<lambda>c. c \<noteq> 44) s)
      else if 44 \<in> set s then comma_to_dot s
      else s)"

definition spec_parse_money :: "pylib \<Rightarrow> pyval \<Rightarrow> pyfloat option" where
  "spec_parse_money L v =
     (if v = PyNone then None
      else let t = py_strip (py_str L v) in
        if t = [] then None
        else (case py_float (spec_money_text
                      (filter (\<lambda>c. c \<noteq> 32) (py_replace (U ''R$'') [] t))) of
                Inr x \<Rightarrow> Some x
              | Inl e \<Rightarrow> None))"

subsection \<open>Dates: a day-first date anywhere in the text\<close>

text \<open>
  The specification: the text contains a \<open>DD/MM/YYYY\<close> substring. \<open>spec_first_date\<close>
  is the leftmost such substring, found by position.
\<close>

definition spec_date_positions :: "ustr \<Rightarrow> nat list" where
  "spec_date_positions s = filter (\<lambda>i. date_at (drop i s)) [0..<length s]"

definition spec_first_date :: "ustr \<Rightarrow> ustr option" where
  "spec_first_date s =
     (case spec_date_positions s of [] \<Rightarrow> None | i # is \<Rightarrow> Some (take 10 (drop i s)))"

subsection \<open>Validation: the fixed order of the checks\<close>

text \<open>
  The specification: for each row, in row order, the six checks in their fixed order,
  each adding its issue when it fires.
\<close>

definition spec_row_issues :: "pylib \<Rightarrow> ustr list \<Rightarrow> nat \<Rightarrow> pyval list \<Rightarrow> issue list" where
  "spec_row_issues L cs idx r =
     (let cli = s_opt L (row_get cs r Cliente);
          con = s_opt L (row_get cs r Contrato);
          paid = (row_get cs r Pago = PyStr SIM);
          returned = (row_get cs r TED_Devolvida = PyStr SIM)
      in (if con = None then [Issue ERROR idx None cli msg_contrato_vazio] else [])
       @ (if cli = None then [Issue ERROR idx con None msg_cliente_vazio] else [])
       @ (if paid \<and> isna (row_get cs r Data_Pagamento)
          then [Issue ERROR idx con cli msg_pago_sem_data] else [])
       @ (if paid \<and> isna (row_get cs r VALOR_PAGO)
          then [Issue ERROR idx con cli msg_pago_sem_valor] else [])
       @ (if \<not> paid \<and> \<not> isna (row_get cs r VALOR_PAGO)
          then [Issue WARN idx con cli msg_nao_pago_com_valor] else [])
       @ (if returned \<and> isna (row_get cs r Valor_Devolvido)
          then [Issue ERROR idx con cli msg_ted_sem_valor] else []))"

definition spec_validate :: "pylib \<Rightarrow> dataframe \<Rightarrow> issue list" where
  "spec_validate L df =
     concat (map (\<lambda>(idx, r). spec_row_issues L (df_columns df) idx r)
                 (zip [0..<length (df_rows df)] (df_rows df)))"

definition issues_of_row :: "nat \<Rightarrow> issue list \<Rightarrow> issue list" where
  "issues_of_row k issues = filter (\<lambda>i. row i = k) issues"

text \<open>A field is empty when it is absent or blank after trimming.\<close>

definition empty_field :: "pylib \<Rightarrow> pyval \<Rightarrow> bool" where
  "empty_field L v = (v = PyNone \<or> py_strip (py_str L v) = [])"

definition rows_missing_identity :: "pylib \<Rightarrow> dataframe \<Rightarrow> pyval list list" where
  "rows_missing_identity L df =
     filter (\<lambda>r. empty_field L (row_get (df_columns df) r Contrato)
                \<or> empty_field L (row_get (df_columns df) r Cliente)) (df_rows df)"

section \<open>A library instance and tables for the worked examples\<close>

text \<open>
  Modelled from the spec: the instance of the library parameter used by the examples.
  The two date parsers are the ones the specification describes. A finite float is
  printed in positional notation and a Timestamp as \<open>YYYY-MM-DD HH:MM:SS\<close>.
\<close>

fun frac_digits :: "nat \<Rightarrow> rat \<Rightarrow> ustr" where
  "frac_digits 0 f = []"
| "frac_digits (Suc n) f =
     (if f = 0 then []
      else (let d = nat \<lfloor>f * 10\<rfloor> in (48 + d) # frac_digits n (f * 10 - of_nat d)))"

definition positional :: "rat \<Rightarrow> ustr" where
  "positional q =
     (let a = \<bar>q\<bar>; n = nat \<lfloor>a\<rfloor>; f = a - of_nat n
      in (if q < 0 then [45] else []) @ nat_digits n @ [46]
         @ (if f = 0 then [48] else frac_digits 17 f))"

definition pad2 :: "nat \<Rightarrow> ustr" where
  "pad2 n = (if n < 10 then 48 # nat_digits n else nat_digits n)"

definition pad4 :: "nat \<Rightarrow> ustr" where
  "pad4 n = replicate (4 - length (nat_digits n)) 48 @ nat_digits n"

definition timestamp_text :: "timestamp \<Rightarrow> ustr" where
  "timestamp_text t =
     pad4 (ts_year t) @ [45] @ pad2 (ts_month t) @ [45] @ pad2 (ts_day t) @ [32]
     @ pad2 (ts_hour t) @ [58] @ pad2 (ts_minute t) @ [58] @ pad2 (ts_second t)"

definition spec_lib :: pylib where
  "spec_lib = \<lparr>float_str = positional, ts_str = timestamp_text,
               to_datetime_dayfirst = spec_dayfirst, to_datetime = spec_general\<rparr>"

definition N_ordinal_Contrato :: ustr where
  "N_ordinal_Contrato = [78, 186, 32] @ U ''Contrato''"

definition Numero_Contrato_accented :: ustr where
  "Numero_Contrato_accented = [78, 250] @ U ''mero Contrato''"

definition empty_fs :: filesystem where
  "empty_fs = \<lparr>dirs = {}, files = Map.empty\<rparr>"

definition example_clock :: clock where
  "example_clock = \<lparr>run_stamp = U ''2026-01-02_10-00-00'', start_iso = U ''2026-01-02T10:00:00''\<rparr>"

definition example_run_dir :: path where
  "example_run_dir = [U ''out'', U ''runs'', U ''2026-01-02_10-00-00'']"

text \<open>
  A raw table with one row, whose client cell is blank and whose contract cell is
  missing, and the table that normalization makes of it. Then a raw table whose contract header is
  not an alias of any column.
\<close>

definition raw_table :: dataframe where
  "raw_table =
     \<lparr>df_columns = [U ''cliente'', U '' Nr-Contrato '', U ''Data de Emiss'' @ [227, 111],
                     U ''valor_liberado''],
      df_rows = [[PyStr (U ''  ''), PyFloat FNaN, PyStr (U ''02/01/2026''),
                  PyStr (U ''3.000,00'')]]\<rparr>"

definition second_of_january :: timestamp where
  "second_of_january = Timestamp 2026 1 2 0 0 0"

definition normalized_table :: dataframe where
  "normalized_table =
     \<lparr>df_columns = [Cliente, Contrato, Emissao, Vlr_Liberado],
      df_rows = [[PyStr (U ''  ''), PyStr (U ''nan''), PyTs second_of_january,
                  PyFloat (Fin 3000)]]\<rparr>"

definition normalized_stats :: "(ustr \<times> col_stats) list" where
  "normalized_stats =
     [(Emissao, \<lparr>before_non_empty = 1, after_non_empty = 1, became_empty = 0\<rparr>)]"

definition raw_table_short :: dataframe where
  "raw_table_short =
     \<lparr>df_columns = [U ''cliente'', N_ordinal_Contrato, U ''Data de Emiss'' @ [227, 111],
                     U ''valor_liberado''],
      df_rows = [[PyStr (U ''ANA''), PyStr (U ''861234567890-3''), PyStr (U ''02/01/2026''),
                  PyStr (U ''3.000,00'')]]\<rparr>"

definition example_input :: path where
  "example_input = [U ''in.xlsx'']"

definition example_output :: path where
  "example_output = [U ''out'', U ''o.xlsx'']"

text \<open>Normalized tables for the validator: paid without date and amount.\<close>

definition validator_columns :: "ustr list" where
  "validator_columns =
     [Cliente, Contrato, Pago, Data_Pagamento, VALOR_PAGO, TED_Devolvida, Valor_Devolvido]"

definition paid_row :: "pyval list" where
  "paid_row = [PyStr (U ''ANA''), PyStr (U ''861234567890-3''), PyStr SIM, PyNone, PyNone,
               PyStr NAO_til, PyNone]"

definition paid_returned_row :: "pyval list" where
  "paid_returned_row = [PyStr (U ''ANA''), PyStr (U ''861234567890-3''), PyStr SIM, PyNone,
                        PyNone, PyStr SIM, PyNone]"

definition blank_row :: "pyval list" where
  "blank_row = [PyNone, PyStr (U ''  ''), PyStr NAO_til, PyNone, PyNone, PyStr [], PyNone]"

definition paid_table :: dataframe where
  "paid_table = \<lparr>df_columns = validator_columns, df_rows = [blank_row, paid_row]\<rparr>"

definition paid_returned_table :: dataframe where
  "paid_returned_table = \<lparr>df_columns = validator_columns, df_rows = [paid_returned_row]\<rparr>"

section \<open>Properties\<close>

lemmas text_defs = U_def py_lower_def py_strip_def lower_cp_def isspace_def isdecimal_def
  py_upper_def upper_cp_def

lemmas canon_defs = nfkd_def nfkd_cp_def nfkd_table_def combining_def
  is_separator_def is_key_char_def

subsection \<open>Header canonicalization\<close>

lemma canon_N_ordinal: "canon_col N_ordinal_Contrato = U ''no contrato''"
  unfolding canon_col_def Let_def N_ordinal_Contrato_def
  by (simp add: text_defs canon_defs)

lemma canon_numero_contrato: "canon_col (U ''numero_contrato'') = U ''numero contrato''"
  unfolding canon_col_def Let_def
  by (simp add: text_defs canon_defs)

lemma canon_Numero_accented: "canon_col Numero_Contrato_accented = U ''numero contrato''"
  unfolding canon_col_def Let_def Numero_Contrato_accented_def
  by (simp add: text_defs canon_defs)

text \<open>
  C5, as stated: the headers \<open>N\<ordmasculine> Contrato\<close> (N, U+00BA, blank, Contrato) and
  \<open>numero_contrato\<close> have the same canonical key. They do not: the ordinal sign
  decomposes to the letter o, so the first key is \<open>no contrato\<close>.
\<close>

theorem canon_ordinal_differs:
  "canon_col N_ordinal_Contrato \<noteq> canon_col (U ''numero_contrato'')"
  unfolding canon_N_ordinal canon_numero_contrato
  by (simp add: U_def)

text \<open>
  C5, amended: \<open>canon_col\<close> maps \<open>N\<ordmasculine> Contrato\<close> to \<open>no contrato\<close> and
  \<open>numero_contrato\<close> to \<open>numero contrato\<close>; the accented spelling
  \<open>Numero Contrato\<close> with an acute accent on the u has the same key as \<open>numero_contrato\<close>; and of the two keys
  only \<open>numero contrato\<close> is an alias, of the column Contrato.
\<close>

theorem canon_col_keys:
  "canon_col N_ordinal_Contrato = U ''no contrato''
   \<and> canon_col (U ''numero_contrato'') = U ''numero contrato''
   \<and> canon_col Numero_Contrato_accented = canon_col (U ''numero_contrato'')
   \<and> map_of COLUMN_ALIASES (canon_col N_ordinal_Contrato) = None
   \<and> map_of COLUMN_ALIASES (canon_col (U ''numero_contrato'')) = Some Contrato"
  unfolding canon_N_ordinal canon_numero_contrato canon_Numero_accented
  by (simp add: COLUMN_ALIASES_def U_def Contrato_def)

subsection \<open>The yes/no parser\<close>

text \<open>
  C6: an absent value (\<open>None\<close> or NaN) gives the empty text. Otherwise, with the value's
  text trimmed and upper-cased: a text in \<open>{SIM, S, YES, Y, TRUE, 1}\<close> gives \<open>SIM\<close>; a
  text in \<open>{NAO with a tilde, NAO, N, NO, FALSE, 0}\<close> gives \<open>NAO\<close> with the tilde; the empty text gives the empty
  text; any other text is returned as it is, trimmed and upper-cased.
\<close>

theorem yes_no_tristate:
  "(v = PyNone \<or> v = PyFloat FNaN \<longrightarrow> normalize_yes_no L v = Inr [])
   \<and> (v \<noteq> PyNone \<and> v \<noteq> PyFloat FNaN \<longrightarrow>
       (py_upper (py_strip (py_str L v))
          \<in> {U ''SIM'', U ''S'', U ''YES'', U ''Y'', U ''TRUE'', U ''1''}
        \<longrightarrow> normalize_yes_no L v = Inr (U ''SIM''))
     \<and> (py_upper (py_strip (py_str L v))
          \<in> {[78, 195, 79], U ''NAO'', U ''N'', U ''NO'', U ''FALSE'', U ''0''}
        \<longrightarrow> normalize_yes_no L v = Inr [78, 195, 79])
     \<and> (py_upper (py_strip (py_str L v)) = [] \<longrightarrow> normalize_yes_no L v = Inr [])
     \<and> (py_upper (py_strip (py_str L v))
          \<notin> {U ''SIM'', U ''S'', U ''YES'', U ''Y'', U ''TRUE'', U ''1'',
              [78, 195, 79], U ''NAO'', U ''N'', U ''NO'', U ''FALSE'', U ''0''}
        \<longrightarrow> normalize_yes_no L v = Inr (py_upper (py_strip (py_str L v)))))"
  unfolding normalize_yes_no_def Let_def
  by (auto simp: yes_words_def no_words_def SIM_def NAO_til_def U_def)

theorem yes_no_tristate_witness:
  "normalize_yes_no spec_lib PyNone = Inr []
   \<and> normalize_yes_no spec_lib (PyFloat FNaN) = Inr []
   \<and> normalize_yes_no spec_lib (PyStr (U '' sim '')) = Inr (U ''SIM'')
   \<and> normalize_yes_no spec_lib (PyInt 1) = Inr (U ''SIM'')
   \<and> normalize_yes_no spec_lib (PyStr [110, 227, 111]) = Inr [78, 195, 79]
   \<and> normalize_yes_no spec_lib (PyStr (U ''  '')) = Inr []
   \<and> normalize_yes_no spec_lib (PyStr (U '' talvez'')) = Inr (U ''TALVEZ'')"
  using yes_no_tristate [of PyNone spec_lib] yes_no_tristate [of "PyFloat FNaN" spec_lib]
    yes_no_tristate [of "PyStr (U '' sim '')" spec_lib]
    yes_no_tristate [of "PyInt 1" spec_lib]
    yes_no_tristate [of "PyStr [110, 227, 111]" spec_lib]
    yes_no_tristate [of "PyStr (U ''  '')" spec_lib]
    yes_no_tristate [of "PyStr (U '' talvez'')" spec_lib]
  by (simp add: U_def py_upper_def py_strip_def isspace_def upper_cp_def int_str_def
        nat_digits.simps)

subsection \<open>The money parser\<close>

lemma py_replace_remove: "py_replace [c] [] s = filter (\<lambda>x. x \<noteq> c) s"
proof (induction s)
  case Nil
  show ?case by (subst py_replace.simps) simp
next
  case (Cons x xs)
  show ?case by (subst py_replace.simps) (simp add: Cons.IH)
qed

lemma py_replace_char: "py_replace [c] [d] s = map (\<lambda>x. if x = c then d else x) s"
proof (induction s)
  case Nil
  show ?case by (subst py_replace.simps) simp
next
  case (Cons x xs)
  show ?case by (subst py_replace.simps) (simp add: Cons.IH)
qed

lemma rfind_from_range:
  "0 \<le> i \<Longrightarrow> (c \<notin> set s \<longrightarrow> rfind_from i s c = -1)
     \<and> (c \<in> set s \<longrightarrow> i \<le> rfind_from i s c \<and> rfind_from i s c < i + int (length s))"
proof (induction s arbitrary: i)
  case Nil
  then show ?case by simp
next
  case (Cons x xs)
  from Cons.prems have "0 \<le> i + 1" by simp
  from Cons.IH [OF this] Cons.prems show ?case
    by (auto simp: Let_def)
qed

lemma rfind_from_snoc:
  "0 \<le> i \<Longrightarrow> rfind_from i (s @ [x]) c = (if x = c then i + int (length s) else rfind_from i s c)"
proof (induction s arbitrary: i)
  case Nil
  then show ?case by (simp add: Let_def)
next
  case (Cons y ys)
  from Cons.prems have "0 \<le> i + 1" by simp
  from Cons.IH [OF this] Cons.prems show ?case
    by (auto simp: Let_def)
qed

lemma rfind_snoc:
  "rfind (s @ [x]) c = (if x = c then int (length s) else rfind s c)"
  using rfind_from_snoc [of 0 s x c] by (simp add: rfind_def)

lemma rfind_range:
  "(c \<notin> set s \<longrightarrow> rfind s c = -1) \<and> (c \<in> set s \<longrightarrow> 0 \<le> rfind s c \<and> rfind s c < int (length s))"
  using rfind_from_range [of 0 c s] by (simp add: rfind_def)

lemma spec_last_separator_alt:
  "spec_last_separator s =
     (if filter (\<lambda>c. c = 46 \<or> c = 44) s = [] then None
      else Some (last (filter (\<lambda>c. c = 46 \<or> c = 44) s)))"
  unfolding spec_last_separator_def
  by (cases "filter (\<lambda>c. c = 46 \<or> c = 44) s") simp_all

lemma spec_last_separator_snoc:
  "spec_last_separator (s @ [x]) = (if x = 46 \<or> x = 44 then Some x else spec_last_separator s)"
  by (simp add: spec_last_separator_alt)

lemma last_comma_wins:
  "(rfind s 44 > rfind s 46) = (spec_last_separator s = Some 44)"
proof (induction s rule: rev_induct)
  case Nil
  show ?case by (simp add: rfind_def spec_last_separator_def)
next
  case (snoc x xs)
  have r46: "rfind xs 46 < int (length xs)" and r44: "rfind xs 44 < int (length xs)"
    using rfind_range [of 46 xs] rfind_range [of 44 xs] by auto
  show ?case
  proof (cases "x = 44")
    case True
    then show ?thesis using r46 by (simp add: rfind_snoc spec_last_separator_snoc)
  next
    case False
    show ?thesis
    proof (cases "x = 46")
      case True
      then show ?thesis using r44 by (simp add: rfind_snoc spec_last_separator_snoc)
    next
      case False
      with \<open>x \<noteq> 44\<close> show ?thesis using snoc.IH
        by (simp add: rfind_snoc spec_last_separator_snoc)
    qed
  qed
qed

lemma filter_absent: "c \<notin> set s \<Longrightarrow> filter (\<lambda>x. x \<noteq> c) s = s"
  by (induction s) auto

lemma money_separators_spec: "money_separators s = spec_money_text s"
proof (cases "46 \<in> set s")
  case True
  then show ?thesis
    unfolding money_separators_def spec_money_text_def Let_def
    by (simp add: py_replace_remove py_replace_char last_comma_wins comma_to_dot_def)
next
  case False
  then show ?thesis
    unfolding money_separators_def spec_money_text_def Let_def
    by (simp add: py_replace_remove py_replace_char comma_to_dot_def filter_absent)
qed

lemma parse_money_refines: "parse_money_mixed L v = Inr (spec_parse_money L v)"
proof -
  have catch: "(case r of Inr x \<Rightarrow> Inr (Some x) | Inl (ValueError e) \<Rightarrow> Inr None)
      = (Inr (case r of Inr x \<Rightarrow> Some x | Inl e \<Rightarrow> None) :: pyerr + pyfloat option)"
    for r :: "pyerr + pyfloat"
    by (cases r) (auto split: pyerr.splits)
  show ?thesis
    unfolding parse_money_mixed_def spec_parse_money_def Let_def
    by (simp add: py_replace_remove money_separators_spec catch)
qed

lemmas float_defs = py_float_def float_number_def float_exponent_def digits_val_def scale10_def

lemma money_pt: "parse_money_mixed L (PyStr (U ''3.000,00'')) = Inr (Some (Fin 3000))"
  unfolding parse_money_mixed_def money_separators_def float_defs Let_def
  by (simp add: text_defs rfind_def py_replace.simps)

lemma money_en: "parse_money_mixed L (PyStr (U ''3,000.00'')) = Inr (Some (Fin 3000))"
  unfolding parse_money_mixed_def money_separators_def float_defs Let_def
  by (simp add: text_defs rfind_def py_replace.simps)

lemma money_dot: "parse_money_mixed L (PyStr (U ''3000.00'')) = Inr (Some (Fin 3000))"
  unfolding parse_money_mixed_def money_separators_def float_defs Let_def
  by (simp add: text_defs rfind_def py_replace.simps)

lemma money_int: "parse_money_mixed L (PyStr (U ''3000'')) = Inr (Some (Fin 3000))"
  unfolding parse_money_mixed_def money_separators_def float_defs Let_def
  by (simp add: text_defs rfind_def py_replace.simps)

lemma money_empty: "parse_money_mixed L (PyStr []) = Inr None"
  unfolding parse_money_mixed_def Let_def
  by (simp add: text_defs)

text \<open>
  C2: the money parser is the one the specification words. After the currency marker and
  the blanks are removed: when both separators occur, the one that occurs last is the
  decimal separator (a last comma: the dots are removed and the comma becomes a dot; a
  last dot: the commas are removed); a comma alone is the decimal separator; otherwise the
  text is parsed as it is. The five values of the specification follow.
\<close>

theorem money_last_separator_wins:
  "parse_money_mixed L v = Inr (spec_parse_money L v)
   \<and> money_separators s = spec_money_text s
   \<and> parse_money_mixed L (PyStr (U ''3.000,00'')) = Inr (Some (Fin 3000))
   \<and> parse_money_mixed L (PyStr (U ''3,000.00'')) = Inr (Some (Fin 3000))
   \<and> parse_money_mixed L (PyStr (U ''3000.00'')) = Inr (Some (Fin 3000))
   \<and> parse_money_mixed L (PyStr (U ''3000'')) = Inr (Some (Fin 3000))
   \<and> parse_money_mixed L (PyStr []) = Inr None"
  using parse_money_refines [of L v] money_separators_spec [of s]
    money_pt [of L] money_en [of L] money_dot [of L] money_int [of L] money_empty [of L]
  by simp

subsection \<open>The date parser\<close>

lemma spec_date_positions_Cons:
  "spec_date_positions (c # cs) =
     (if date_at (c # cs) then [0] else []) @ map Suc (spec_date_positions cs)"
proof -
  have "[0..<length (c # cs)] = 0 # map Suc [0..<length cs]"
    by (simp add: upt_conv_Cons map_Suc_upt del: upt_Suc)
  then show ?thesis
    by (simp add: spec_date_positions_def filter_map comp_def)
qed

lemma re_date_search_spec: "re_date_search s = spec_first_date s"
proof (induction s)
  case Nil
  show ?case by (simp add: spec_first_date_def spec_date_positions_def)
next
  case (Cons c cs)
  show ?case
  proof (cases "date_at (c # cs)")
    case True
    then show ?thesis
      by (simp add: spec_first_date_def spec_date_positions_Cons del: date_at.simps)
  next
    case False
    then show ?thesis
      using Cons.IH
      by (simp add: spec_first_date_def spec_date_positions_Cons del: date_at.simps
               split: list.splits)
  qed
qed

lemma parse_date_refines:
  "parse_date_mixed L v =
     Inr (if v = PyNone \<or> py_strip (py_str L v) = [] then None
          else (case spec_first_date (py_strip (py_str L v)) of
                  Some m \<Rightarrow> to_datetime_dayfirst L m
                | None \<Rightarrow> to_datetime L (py_strip (py_str L v))))"
  unfolding parse_date_mixed_def Let_def
  by (simp add: re_date_search_spec split: option.splits)

lemmas date_defs = spec_dates_def spec_dayfirst_def spec_general_def mk_timestamp_def
  days_in_month_def leap_year_def digits_val_def

lemma date_plain:
  "parse_date_mixed (spec_dates L) (PyStr (U ''02/01/2026''))
     = Inr (Some (Timestamp 2026 1 2 0 0 0))"
  unfolding parse_date_mixed_def Let_def date_defs
  by (simp add: text_defs)

lemma date_marker:
  "parse_date_mixed (spec_dates L) (PyStr (U ''() 02/01/2026''))
     = Inr (Some (Timestamp 2026 1 2 0 0 0))"
  unfolding parse_date_mixed_def Let_def date_defs
  by (simp add: text_defs)

lemma date_iso:
  "parse_date_mixed (spec_dates L) (PyStr (U ''2026-01-02''))
     = Inr (Some (Timestamp 2026 1 2 0 0 0))"
  unfolding parse_date_mixed_def Let_def date_defs
  by (simp add: text_defs)

text \<open>
  C3: the search of the pattern finds the leftmost \<open>DD/MM/YYYY\<close> substring of the text,
  wherever it stands. An absent or blank value gives the absent value; a text with such
  a substring gives what the day-first parse of that substring gives; any other text
  gives what the general parse of the trimmed text gives; a parse that fails (\<open>NaT\<close>)
  is the absent value. With the parsers the specification describes, the three dates
  of the specification are the second of January 2026.
\<close>

theorem date_parser_dayfirst_substring:
  "re_date_search s = spec_first_date s
   \<and> parse_date_mixed L v =
       Inr (if v = PyNone \<or> py_strip (py_str L v) = [] then None
            else (case spec_first_date (py_strip (py_str L v)) of
                    Some m \<Rightarrow> to_datetime_dayfirst L m
                  | None \<Rightarrow> to_datetime L (py_strip (py_str L v))))
   \<and> parse_date_mixed (spec_dates L) (PyStr (U ''02/01/2026''))
       = Inr (Some (Timestamp 2026 1 2 0 0 0))
   \<and> parse_date_mixed (spec_dates L) (PyStr (U ''() 02/01/2026''))
       = Inr (Some (Timestamp 2026 1 2 0 0 0))
   \<and> parse_date_mixed (spec_dates L) (PyStr (U ''2026-01-02''))
       = Inr (Some (Timestamp 2026 1 2 0 0 0))"
  using re_date_search_spec [of s] parse_date_refines [of L v]
    date_plain [of L] date_marker [of L] date_iso [of L]
  by simp

subsection \<open>The parsers never raise\<close>

lemma yes_no_returns: "\<exists>s. normalize_yes_no L v = Inr s"
  unfolding normalize_yes_no_def Let_def by simp

lemma date_returns: "\<exists>d. parse_date_mixed L v = Inr d"
  unfolding parse_date_mixed_def Let_def by (simp split: option.splits)

lemma money_returns: "\<exists>m. parse_money_mixed L v = Inr m"
  unfolding parse_money_mixed_def Let_def
  by (auto split: sum.splits pyerr.splits)

text \<open>
  C7: for every value, each of the three parsers returns a result; none raises. A text
  that \<open>float\<close> rejects gives the absent money value, and a text in which the library
  finds no date gives the absent date.
\<close>

theorem parsers_total:
  "(\<exists>s. normalize_yes_no L v = Inr s)
   \<and> (\<exists>d. parse_date_mixed L v = Inr d)
   \<and> (\<exists>m. parse_money_mixed L v = Inr m)
   \<and> ((\<forall>x. py_float (money_separators (py_replace [32] []
              (py_replace (U ''R$'') [] (py_strip (py_str L v))))) \<noteq> Inr x)
        \<longrightarrow> parse_money_mixed L v = Inr None)
   \<and> ((\<forall>m. re_date_search (py_strip (py_str L v)) = Some m
              \<longrightarrow> to_datetime_dayfirst L m = None)
        \<and> (re_date_search (py_strip (py_str L v)) = None
             \<longrightarrow> to_datetime L (py_strip (py_str L v)) = None)
        \<longrightarrow> parse_date_mixed L v = Inr None)"
proof -
  have money: "(\<forall>x. py_float (money_separators (py_replace [32] []
              (py_replace (U ''R$'') [] (py_strip (py_str L v))))) \<noteq> Inr x)
        \<longrightarrow> parse_money_mixed L v = Inr None"
    unfolding parse_money_mixed_def Let_def
    by (auto split: sum.splits pyerr.splits)
  have dates: "(\<forall>m. re_date_search (py_strip (py_str L v)) = Some m
              \<longrightarrow> to_datetime_dayfirst L m = None)
        \<and> (re_date_search (py_strip (py_str L v)) = None
             \<longrightarrow> to_datetime L (py_strip (py_str L v)) = None)
        \<longrightarrow> parse_date_mixed L v = Inr None"
    unfolding parse_date_mixed_def Let_def
    by (auto split: option.splits)
  from yes_no_returns [of L v] date_returns [of L v] money_returns [of L v] money dates
  show ?thesis by blast
qed

theorem parsers_total_witness:
  "normalize_yes_no spec_lib (PyStr (U ''abc'')) = Inr (U ''ABC'')
   \<and> parse_date_mixed spec_lib (PyStr (U ''abc'')) = Inr None
   \<and> parse_money_mixed spec_lib (PyStr (U ''abc'')) = Inr None
   \<and> parse_money_mixed spec_lib (PyInt 3000) = Inr (Some (Fin 3000))
   \<and> parse_date_mixed spec_lib PyNone = Inr None
   \<and> parse_money_mixed spec_lib PyNone = Inr None
   \<and> normalize_yes_no spec_lib PyNone = Inr []"
proof -
  have y: "normalize_yes_no spec_lib (PyStr (U ''abc'')) = Inr (U ''ABC'')"
    unfolding normalize_yes_no_def Let_def
    by (simp add: text_defs yes_words_def no_words_def NAO_til_def)
  have f: "py_float (money_separators (py_replace [32] []
              (py_replace (U ''R$'') [] (py_strip (py_str spec_lib (PyStr (U ''abc'')))))))
           = Inl (ValueError (BadFloatLiteral (U ''abc'')))"
    unfolding money_separators_def Let_def py_float_def float_number_def float_exponent_def
    by (simp add: text_defs py_replace.simps)
  have d1: "re_date_search (py_strip (py_str spec_lib (PyStr (U ''abc'')))) = None"
    by (simp add: text_defs)
  have d2: "to_datetime spec_lib (py_strip (py_str spec_lib (PyStr (U ''abc'')))) = None"
    unfolding spec_lib_def spec_general_def
    by (simp add: text_defs)
  have n: "parse_money_mixed spec_lib (PyInt 3000) = Inr (Some (Fin 3000))"
    unfolding parse_money_mixed_def money_separators_def Let_def py_float_def float_number_def
      float_exponent_def digits_val_def scale10_def
    by (simp add: text_defs py_replace.simps rfind_def int_str_def nat_digits.simps)
  have none: "parse_date_mixed spec_lib PyNone = Inr None"
      "parse_money_mixed spec_lib PyNone = Inr None" "normalize_yes_no spec_lib PyNone = Inr []"
    by (simp_all add: parse_date_mixed_def parse_money_mixed_def normalize_yes_no_def)
  from parsers_total [of spec_lib "PyStr (U ''abc'')"] y f d1 d2 n none
  show ?thesis by simp
qed

subsection \<open>The validator\<close>

lemma s_opt_None: "(s_opt L v = None) = empty_field L v"
  by (simp add: s_opt_def empty_field_def Let_def)

lemma s_opt_not_blank: "s_opt L v \<noteq> Some []"
  by (simp add: s_opt_def Let_def)

lemma check_row_append:
  "check_row L cs idx r acc = acc @ spec_row_issues L cs idx r"
proof -
  have con: "s_opt L (row_get cs r Contrato) \<noteq> Some []"
    and cli: "s_opt L (row_get cs r Cliente) \<noteq> Some []"
    by (rule s_opt_not_blank)+
  show ?thesis
    unfolding check_row_def spec_row_issues_def Let_def py_not_def
    using con cli by simp
qed

lemma validate_rows_spec:
  "validate_rows L cs idx rs acc =
     acc @ concat (map (\<lambda>(i, r). spec_row_issues L cs i r) (zip [idx..<idx + length rs] rs))"
proof (induction rs arbitrary: idx acc)
  case Nil
  show ?case by simp
next
  case (Cons r rs)
  have "[idx..<idx + length (r # rs)] = idx # [Suc idx..<Suc idx + length rs]"
    by (simp add: upt_conv_Cons del: upt_Suc)
  then show ?case
    by (simp add: Cons.IH check_row_append del: upt_Suc)
qed

lemma validate_refines: "validate_dataframe L df = spec_validate L df"
  by (simp add: validate_dataframe_def spec_validate_def validate_rows_spec)

lemma spec_row_issues_nonempty:
  "empty_field L (row_get cs r Contrato) \<or> empty_field L (row_get cs r Cliente)
     \<Longrightarrow> spec_row_issues L cs idx r \<noteq> []"
  unfolding spec_row_issues_def Let_def
  by (auto simp: s_opt_None)

lemma validate_rows_length:
  "length acc + length (filter (\<lambda>r. empty_field L (row_get cs r Contrato)
                                   \<or> empty_field L (row_get cs r Cliente)) rs)
     \<le> length (validate_rows L cs idx rs acc)"
proof (induction rs arbitrary: idx acc)
  case Nil
  show ?case by simp
next
  case (Cons r rs)
  show ?case
  proof (cases "empty_field L (row_get cs r Contrato) \<or> empty_field L (row_get cs r Cliente)")
    case True
    then have "spec_row_issues L cs idx r \<noteq> []"
      by (rule spec_row_issues_nonempty)
    then have "1 \<le> length (spec_row_issues L cs idx r)"
      by (cases "spec_row_issues L cs idx r") simp_all
    with True Cons.IH [of "acc @ spec_row_issues L cs idx r" "Suc idx"] show ?thesis
      by (simp add: check_row_append)
  next
    case False
    with Cons.IH [of "acc @ spec_row_issues L cs idx r" "Suc idx"] show ?thesis
      by (simp add: check_row_append)
  qed
qed

text \<open>
  C8: for every table, the validator returns at least as many issues as there are rows
  whose contract or client is empty (absent, or blank after trimming).
\<close>

theorem validator_lower_bound:
  "length (rows_missing_identity L df) \<le> length (validate_dataframe L df)"
  using validate_rows_length [of "[]" L "df_columns df" "df_rows df" 0]
  by (simp add: rows_missing_identity_def validate_dataframe_def)

lemma issues_of_row_append:
  "issues_of_row k (xs @ ys) = issues_of_row k xs @ issues_of_row k ys"
  by (simp add: issues_of_row_def)

lemma issues_of_row_spec:
  "issues_of_row k (spec_row_issues L cs i r) = (if i = k then spec_row_issues L cs k r else [])"
  unfolding spec_row_issues_def Let_def issues_of_row_def
  by (simp add: Issue_def)

lemma issues_of_row_validate_rows:
  "issues_of_row k (validate_rows L cs idx rs acc) =
     issues_of_row k acc
     @ (if idx \<le> k \<and> k < idx + length rs then spec_row_issues L cs k (rs ! (k - idx)) else [])"
proof (induction rs arbitrary: idx acc)
  case Nil
  show ?case by auto
next
  case (Cons r rs)
  show ?case
  proof (cases "idx = k")
    case True
    then show ?thesis
      by (simp add: Cons.IH check_row_append issues_of_row_append issues_of_row_spec)
  next
    case False
    then have "idx \<le> k \<Longrightarrow> (r # rs) ! (k - idx) = rs ! (k - Suc idx)"
      by (simp add: nth_Cons')
    with False show ?thesis
      by (auto simp: Cons.IH check_row_append issues_of_row_append issues_of_row_spec)
  qed
qed

lemma issues_of_row_validate:
  "k < length (df_rows df) \<Longrightarrow>
     issues_of_row k (validate_dataframe L df) = spec_row_issues L (df_columns df) k (df_rows df ! k)"
  using issues_of_row_validate_rows [of k L "df_columns df" 0 "df_rows df" "[]"]
  by (simp add: validate_dataframe_def issues_of_row_def)

lemmas column_defs = Cliente_def Contrato_def Taxa_def Emissao_def Prazo_def Vlr_Liberado_def
  Valor_Cancelado_def VALOR_PAGO_def Data_Pagamento_def Pago_def TED_Devolvida_def
  Valor_Devolvido_def

lemmas message_defs = msg_contrato_vazio_def msg_cliente_vazio_def msg_pago_sem_data_def
  msg_pago_sem_valor_def msg_nao_pago_com_valor_def msg_ted_sem_valor_def

lemma paid_returned_row_cells:
  "row_get validator_columns paid_returned_row Cliente = PyStr (U ''ANA'')"
  "row_get validator_columns paid_returned_row Contrato = PyStr (U ''861234567890-3'')"
  "row_get validator_columns paid_returned_row Pago = PyStr SIM"
  "row_get validator_columns paid_returned_row Data_Pagamento = PyNone"
  "row_get validator_columns paid_returned_row VALOR_PAGO = PyNone"
  "row_get validator_columns paid_returned_row TED_Devolvida = PyStr SIM"
  "row_get validator_columns paid_returned_row Valor_Devolvido = PyNone"
  by (simp_all add: row_get_def validator_columns_def paid_returned_row_def column_defs U_def)

lemma paid_row_cells:
  "row_get validator_columns paid_row Cliente = PyStr (U ''ANA'')"
  "row_get validator_columns paid_row Contrato = PyStr (U ''861234567890-3'')"
  "row_get validator_columns paid_row Pago = PyStr SIM"
  "row_get validator_columns paid_row Data_Pagamento = PyNone"
  "row_get validator_columns paid_row VALOR_PAGO = PyNone"
  "row_get validator_columns paid_row TED_Devolvida = PyStr NAO_til"
  "row_get validator_columns paid_row Valor_Devolvido = PyNone"
  by (simp_all add: row_get_def validator_columns_def paid_row_def column_defs U_def)

lemma s_opt_ANA: "s_opt L (PyStr (U ''ANA'')) = Some (U ''ANA'')"
  unfolding s_opt_def Let_def by (simp add: text_defs)

lemma s_opt_contract: "s_opt L (PyStr (U ''861234567890-3'')) = Some (U ''861234567890-3'')"
  unfolding s_opt_def Let_def by (simp add: text_defs)

lemma not_empty_ANA: "\<not> empty_field L (PyStr (U ''ANA''))"
  using s_opt_None [of L "PyStr (U ''ANA'')"] by (simp add: s_opt_ANA)

lemma not_empty_contract: "\<not> empty_field L (PyStr (U ''861234567890-3''))"
  using s_opt_None [of L "PyStr (U ''861234567890-3'')"] by (simp add: s_opt_contract)

text \<open>
  C4, as stated: a row with contract and client, paid flag \<open>SIM\<close>, no payment date and
  no paid amount gets exactly two ERROR issues. A row that also has the returned flag
  \<open>SIM\<close> and no returned amount gets a third one.
\<close>

theorem paid_row_three_errors:
  "\<not> empty_field spec_lib (row_get validator_columns paid_returned_row Contrato)
   \<and> \<not> empty_field spec_lib (row_get validator_columns paid_returned_row Cliente)
   \<and> row_get validator_columns paid_returned_row Pago = PyStr SIM
   \<and> isna (row_get validator_columns paid_returned_row Data_Pagamento)
   \<and> isna (row_get validator_columns paid_returned_row VALOR_PAGO)
   \<and> map severity (issues_of_row 0 (validate_dataframe spec_lib paid_returned_table))
       = [ERROR, ERROR, ERROR]
   \<and> map message (issues_of_row 0 (validate_dataframe spec_lib paid_returned_table))
       = [msg_pago_sem_data, msg_pago_sem_valor, msg_ted_sem_valor]"
proof -
  have "issues_of_row 0 (validate_dataframe spec_lib paid_returned_table)
        = spec_row_issues spec_lib validator_columns 0 paid_returned_row"
    by (simp add: issues_of_row_validate paid_returned_table_def)
  also have "\<dots> = [Issue ERROR 0 (Some (U ''861234567890-3'')) (Some (U ''ANA'')) msg_pago_sem_data,
                   Issue ERROR 0 (Some (U ''861234567890-3'')) (Some (U ''ANA'')) msg_pago_sem_valor,
                   Issue ERROR 0 (Some (U ''861234567890-3'')) (Some (U ''ANA'')) msg_ted_sem_valor]"
    unfolding spec_row_issues_def Let_def paid_returned_row_cells
    by (simp add: s_opt_ANA s_opt_contract)
  finally show ?thesis
    by (simp add: paid_returned_row_cells not_empty_ANA not_empty_contract Issue_def)
qed

text \<open>
  C4, amended: the validator's result is, row after row, the issues of the six checks
  in their fixed order (contract empty, client empty, paid without date, paid without
  amount, not paid with amount, returned without amount). For a row with contract and
  client, paid flag \<open>SIM\<close>, no payment date and no paid amount, whose returned-amount
  check does not fire (the returned flag is not \<open>SIM\<close>, or the returned amount is
  there), the row's issues are exactly two ERROR issues: the missing date, then the
  missing amount.
\<close>

theorem validator_fixed_order:
  assumes "k < length (df_rows df)"
    and "\<not> empty_field L (row_get (df_columns df) (df_rows df ! k) Contrato)"
    and "\<not> empty_field L (row_get (df_columns df) (df_rows df ! k) Cliente)"
    and "row_get (df_columns df) (df_rows df ! k) Pago = PyStr SIM"
    and "isna (row_get (df_columns df) (df_rows df ! k) Data_Pagamento)"
    and "isna (row_get (df_columns df) (df_rows df ! k) VALOR_PAGO)"
    and "row_get (df_columns df) (df_rows df ! k) TED_Devolvida \<noteq> PyStr SIM
         \<or> \<not> isna (row_get (df_columns df) (df_rows df ! k) Valor_Devolvido)"
  shows "validate_dataframe L df = spec_validate L df
    \<and> issues_of_row k (validate_dataframe L df) =
        [Issue ERROR k (s_opt L (row_get (df_columns df) (df_rows df ! k) Contrato))
                       (s_opt L (row_get (df_columns df) (df_rows df ! k) Cliente))
                       msg_pago_sem_data,
         Issue ERROR k (s_opt L (row_get (df_columns df) (df_rows df ! k) Contrato))
                       (s_opt L (row_get (df_columns df) (df_rows df ! k) Cliente))
                       msg_pago_sem_valor]"
proof -
  have "issues_of_row k (validate_dataframe L df)
        = spec_row_issues L (df_columns df) k (df_rows df ! k)"
    using assms(1) by (rule issues_of_row_validate)
  moreover have "spec_row_issues L (df_columns df) k (df_rows df ! k) =
        [Issue ERROR k (s_opt L (row_get (df_columns df) (df_rows df ! k) Contrato))
                       (s_opt L (row_get (df_columns df) (df_rows df ! k) Cliente))
                       msg_pago_sem_data,
         Issue ERROR k (s_opt L (row_get (df_columns df) (df_rows df ! k) Contrato))
                       (s_opt L (row_get (df_columns df) (df_rows df ! k) Cliente))
                       msg_pago_sem_valor]"
    using assms(2-7)
    unfolding spec_row_issues_def Let_def
    by (auto simp: s_opt_None)
  ultimately show ?thesis
    by (simp add: validate_refines)
qed

theorem validator_fixed_order_witness:
  "issues_of_row (Suc 0) (validate_dataframe spec_lib paid_table) =
     [Issue ERROR (Suc 0) (Some (U ''861234567890-3'')) (Some (U ''ANA'')) msg_pago_sem_data,
      Issue ERROR (Suc 0) (Some (U ''861234567890-3'')) (Some (U ''ANA'')) msg_pago_sem_valor]
   \<and> validate_dataframe spec_lib paid_table = spec_validate spec_lib paid_table"
proof -
  have r: "df_rows paid_table ! Suc 0 = paid_row" "df_columns paid_table = validator_columns"
    by (simp_all add: paid_table_def)
  have p1: "Suc 0 < length (df_rows paid_table)"
    by (simp add: paid_table_def)
  have p2: "\<not> empty_field spec_lib
              (row_get (df_columns paid_table) (df_rows paid_table ! Suc 0) Contrato)"
    by (simp add: r paid_row_cells not_empty_contract)
  have p3: "\<not> empty_field spec_lib
              (row_get (df_columns paid_table) (df_rows paid_table ! Suc 0) Cliente)"
    by (simp add: r paid_row_cells not_empty_ANA)
  have p4: "row_get (df_columns paid_table) (df_rows paid_table ! Suc 0) Pago = PyStr SIM"
    by (simp add: r paid_row_cells)
  have p5: "isna (row_get (df_columns paid_table) (df_rows paid_table ! Suc 0) Data_Pagamento)"
    by (simp add: r paid_row_cells)
  have p6: "isna (row_get (df_columns paid_table) (df_rows paid_table ! Suc 0) VALOR_PAGO)"
    by (simp add: r paid_row_cells)
  have p7: "row_get (df_columns paid_table) (df_rows paid_table ! Suc 0) TED_Devolvida
              \<noteq> PyStr SIM
            \<or> \<not> isna (row_get (df_columns paid_table) (df_rows paid_table ! Suc 0)
                        Valor_Devolvido)"
    by (simp add: r paid_row_cells NAO_til_def SIM_def U_def)
  note t = validator_fixed_order [of "Suc 0" paid_table spec_lib, OF p1 p2 p3 p4 p5 p6 p7]
  have a: "issues_of_row (Suc 0) (validate_dataframe spec_lib paid_table) =
     [Issue ERROR (Suc 0) (Some (U ''861234567890-3'')) (Some (U ''ANA'')) msg_pago_sem_data,
      Issue ERROR (Suc 0) (Some (U ''861234567890-3'')) (Some (U ''ANA'')) msg_pago_sem_valor]"
    using t [THEN conjunct2] by (simp add: r paid_row_cells s_opt_ANA s_opt_contract)
  show ?thesis
    using a t [THEN conjunct1] by (rule conjI)
qed

subsection \<open>Operations on columns\<close>

lemma col_index_Some: "col_index c cs = Some i \<Longrightarrow> i < length cs \<and> cs ! i = c"
  by (induction cs arbitrary: i) (auto split: if_splits)

lemma col_index_None: "(col_index c cs = None) = (c \<notin> set cs)"
  by (induction cs) auto

lemma map_result_length: "map_result f xs = Inr ys \<Longrightarrow> length ys = length xs"
  by (induction xs arbitrary: ys) (auto split: sum.splits)

lemma map_result_total:
  "(\<And>x. f x = Inr (g x)) \<Longrightarrow> map_result f xs = Inr (map g xs)"
  by (induction xs) simp_all

lemma zip_update_lengths:
  "length rs = length vs \<Longrightarrow>
     map length (map (\<lambda>(r, v). r[i := v]) (zip rs vs)) = map length rs"
  by (induction rs vs rule: list_induct2) auto

lemma zip_update_other:
  "length rs = length vs \<Longrightarrow> j \<noteq> i \<Longrightarrow>
     map (\<lambda>r. r ! j) (map (\<lambda>(r, v). r[i := v]) (zip rs vs)) = map (\<lambda>r. r ! j) rs"
  by (induction rs vs rule: list_induct2) auto

lemma zip_update_same:
  "length rs = length vs \<Longrightarrow> list_all (\<lambda>r. i < length r) rs \<Longrightarrow>
     map (\<lambda>r. r ! i) (map (\<lambda>(r, v). r[i := v]) (zip rs vs)) = vs"
  by (induction rs vs rule: list_induct2) auto

lemma keeps_column_refl: "keeps_column j df df"
  by (simp add: keeps_column_def)

lemma keeps_column_trans:
  "keeps_column j a b \<Longrightarrow> keeps_column j b c \<Longrightarrow> keeps_column j a c"
  by (simp add: keeps_column_def)

lemma set_series_keeps:
  "length vs = length (df_rows df) \<Longrightarrow> j \<noteq> i \<Longrightarrow> keeps_column j df (set_series i vs df)"
  using zip_update_lengths [of "df_rows df" vs i] zip_update_other [of "df_rows df" vs j i]
  by (simp add: keeps_column_def set_series_def series_def)

lemma apply_column_keeps:
  assumes "apply_column f c df = Inr df'" and "col_index c (df_columns df) \<noteq> Some j"
  shows "keeps_column j df df'"
proof (cases "col_index c (df_columns df)")
  case None
  with assms(1) show ?thesis
    by (simp add: apply_column_def keeps_column_refl)
next
  case (Some i)
  with assms(1) obtain vs where vs: "map_result f (series df i) = Inr vs"
      and d: "df' = set_series i vs df"
    by (auto simp: apply_column_def bind_result_def split: sum.splits)
  from vs have "length vs = length (df_rows df)"
    by (simp add: map_result_length series_def)
  moreover from Some assms(2) have "j \<noteq> i" by auto
  ultimately show ?thesis
    unfolding d by (rule set_series_keeps)
qed

lemma apply_column_stats_keeps:
  assumes "apply_column_stats f c (df, st) = Inr (df', st')"
    and "col_index c (df_columns df) \<noteq> Some j"
  shows "keeps_column j df df'"
proof (cases "col_index c (df_columns df)")
  case None
  with assms(1) show ?thesis
    by (simp add: apply_column_stats_def keeps_column_refl)
next
  case (Some i)
  with assms(1) obtain vs where vs: "map_result f (series df i) = Inr vs"
      and d: "df' = set_series i vs df"
    by (auto simp: apply_column_stats_def apply_with_stats_def bind_result_def Let_def
             split: sum.splits)
  from vs have "length vs = length (df_rows df)"
    by (simp add: map_result_length series_def)
  moreover from Some assms(2) have "j \<noteq> i" by auto
  ultimately show ?thesis
    unfolding d by (rule set_series_keeps)
qed

lemma apply_columns_keeps:
  "apply_columns f cs df = Inr df' \<Longrightarrow>
   list_all (\<lambda>c. col_index c (df_columns df) \<noteq> Some j) cs \<Longrightarrow> keeps_column j df df'"
proof (induction cs arbitrary: df)
  case Nil
  then show ?case by (simp add: keeps_column_refl)
next
  case (Cons c cs)
  from Cons.prems(1) obtain d where d: "apply_column f c df = Inr d"
      and r: "apply_columns f cs d = Inr df'"
    by (auto simp: bind_result_def split: sum.splits)
  from d Cons.prems(2) have k: "keeps_column j df d"
    by (auto intro: apply_column_keeps)
  then have "df_columns d = df_columns df"
    by (simp add: keeps_column_def)
  with Cons.prems(2) have "list_all (\<lambda>c. col_index c (df_columns d) \<noteq> Some j) cs"
    by simp
  with r have "keeps_column j d df'"
    by (rule Cons.IH)
  with k show ?case
    by (rule keeps_column_trans)
qed

lemma apply_contract_column:
  assumes "apply_column (contract_cell L) c df = Inr df'"
    and "col_index c (df_columns df) = Some j"
    and "list_all (\<lambda>r. length r = length (df_columns df)) (df_rows df)"
  shows "df_columns df' = df_columns df \<and> map length (df_rows df') = map length (df_rows df)
     \<and> series df' j = map (\<lambda>v. PyStr (py_strip (py_str L v))) (series df j)"
proof -
  have m: "map_result (contract_cell L) (series df j)
           = Inr (map (\<lambda>v. PyStr (py_strip (py_str L v))) (series df j))"
    by (rule map_result_total) (simp add: contract_cell_def)
  with assms(1,2) have d: "df' = set_series j (map (\<lambda>v. PyStr (py_strip (py_str L v))) (series df j)) df"
    by (simp add: apply_column_def bind_result_def)
  from assms(2) have "j < length (df_columns df)"
    by (simp add: col_index_Some)
  with assms(3) have "list_all (\<lambda>r. j < length r) (df_rows df)"
    by (simp add: list_all_iff)
  then show ?thesis
    unfolding d
    using zip_update_lengths [of "df_rows df" "map (\<lambda>v. PyStr (py_strip (py_str L v))) (series df j)" j]
      zip_update_same [of "df_rows df" "map (\<lambda>v. PyStr (py_strip (py_str L v))) (series df j)" j]
    by (simp add: set_series_def series_def)
qed

subsection \<open>The example tables, step by step\<close>

lemma canon_cliente: "canon_col (U ''cliente'') = U ''cliente''"
  unfolding canon_col_def Let_def
  by (simp add: text_defs canon_defs)

lemma canon_nr_contrato: "canon_col (U ''Nr-Contrato'') = U ''nr contrato''"
  unfolding canon_col_def Let_def
  by (simp add: text_defs canon_defs)

lemma canon_data_de_emissao:
  "canon_col (U ''Data de Emiss'' @ [227, 111]) = U ''data de emissao''"
  unfolding canon_col_def Let_def
  by (simp add: text_defs canon_defs)

lemma canon_valor_liberado: "canon_col (U ''valor_liberado'') = U ''valor liberado''"
  unfolding canon_col_def Let_def
  by (simp add: text_defs canon_defs)

lemma rename_cliente: "rename_column (U ''cliente'') = Cliente"
  unfolding rename_column_def canon_cliente
  by (simp add: COLUMN_ALIASES_def U_def)

lemma rename_nr_contrato: "rename_column (U ''Nr-Contrato'') = Contrato"
  unfolding rename_column_def canon_nr_contrato
  by (simp add: COLUMN_ALIASES_def U_def)

lemma rename_data_de_emissao: "rename_column (U ''Data de Emiss'' @ [227, 111]) = Emissao"
  unfolding rename_column_def canon_data_de_emissao
  by (simp add: COLUMN_ALIASES_def U_def)

lemma rename_valor_liberado: "rename_column (U ''valor_liberado'') = Vlr_Liberado"
  unfolding rename_column_def canon_valor_liberado
  by (simp add: COLUMN_ALIASES_def U_def)

lemma rename_N_ordinal: "rename_column N_ordinal_Contrato = N_ordinal_Contrato"
  unfolding rename_column_def canon_N_ordinal
  by (simp add: COLUMN_ALIASES_def U_def)

lemma renamed_raw_table:
  "renamed_columns raw_table = [Cliente, Contrato, Emissao, Vlr_Liberado]"
proof -
  have "map py_strip (df_columns raw_table)
        = [U ''cliente'', U ''Nr-Contrato'', U ''Data de Emiss'' @ [227, 111], U ''valor_liberado'']"
    by (simp add: raw_table_def text_defs)
  then show ?thesis
    unfolding renamed_columns_def
    by (simp only: list.map rename_cliente rename_nr_contrato rename_data_de_emissao
          rename_valor_liberado)
qed

lemma renamed_raw_table_short:
  "renamed_columns raw_table_short = [Cliente, N_ordinal_Contrato, Emissao, Vlr_Liberado]"
proof -
  have "py_strip N_ordinal_Contrato = N_ordinal_Contrato"
    by (simp add: N_ordinal_Contrato_def text_defs)
  then have "map py_strip (df_columns raw_table_short)
        = [U ''cliente'', N_ordinal_Contrato, U ''Data de Emiss'' @ [227, 111], U ''valor_liberado'']"
    by (simp add: raw_table_short_def text_defs)
  then show ?thesis
    unfolding renamed_columns_def
    by (simp only: list.map rename_cliente rename_N_ordinal rename_data_de_emissao
          rename_valor_liberado)
qed

lemma missing_raw_table: "missing_columns raw_table = []"
  unfolding missing_columns_def renamed_raw_table REQUIRED_COLUMNS_def
  by simp

lemma missing_raw_table_short: "missing_columns raw_table_short = [Contrato]"
  unfolding missing_columns_def renamed_raw_table_short REQUIRED_COLUMNS_def
  by (simp add: column_defs N_ordinal_Contrato_def U_def)

lemma strip_internal_names:
  "map py_strip [Cliente, Contrato, Emissao, Vlr_Liberado]
     = [Cliente, Contrato, Emissao, Vlr_Liberado]"
  by (simp add: column_defs text_defs)

lemma internal_indices:
  "col_index Taxa [Cliente, Contrato, Emissao, Vlr_Liberado] = None"
  "col_index Emissao [Cliente, Contrato, Emissao, Vlr_Liberado] = Some (Suc (Suc 0))"
  "col_index Data_Pagamento [Cliente, Contrato, Emissao, Vlr_Liberado] = None"
  "col_index Vlr_Liberado [Cliente, Contrato, Emissao, Vlr_Liberado] = Some (Suc (Suc (Suc 0)))"
  "col_index Valor_Cancelado [Cliente, Contrato, Emissao, Vlr_Liberado] = None"
  "col_index VALOR_PAGO [Cliente, Contrato, Emissao, Vlr_Liberado] = None"
  "col_index Valor_Devolvido [Cliente, Contrato, Emissao, Vlr_Liberado] = None"
  "col_index Pago [Cliente, Contrato, Emissao, Vlr_Liberado] = None"
  "col_index TED_Devolvida [Cliente, Contrato, Emissao, Vlr_Liberado] = None"
  "col_index Contrato [Cliente, Contrato, Emissao, Vlr_Liberado] = Some (Suc 0)"
  "col_index Cliente [Cliente, Contrato, Emissao, Vlr_Liberado] = Some 0"
  by (simp_all add: column_defs U_def)

lemma spec_dates_spec_lib: "spec_dates spec_lib = spec_lib"
  by (simp add: spec_dates_def spec_lib_def)

lemma date_cell_example:
  "date_cell spec_lib (PyStr (U ''02/01/2026'')) = Inr (PyTs second_of_january)"
  using date_plain [of spec_lib]
  by (simp add: date_cell_def bind_result_def spec_dates_spec_lib second_of_january_def)

lemma money_cell_example:
  "money_cell L (PyStr (U ''3.000,00'')) = Inr (PyFloat (Fin 3000))"
  by (simp add: money_cell_def bind_result_def money_pt)

lemma contract_cell_nan: "contract_cell L (PyFloat FNaN) = Inr (PyStr (U ''nan''))"
  by (simp add: contract_cell_def text_defs)

lemma normalize_raw_table:
  "normalize_dataframe spec_lib raw_table = Inr (normalized_table, normalized_stats)"
proof -
  let ?cs = "[Cliente, Contrato, Emissao, Vlr_Liberado]"
  let ?r0 = "[PyStr (U ''  ''), PyFloat FNaN, PyStr (U ''02/01/2026''), PyStr (U ''3.000,00'')]"
  let ?r1 = "[PyStr (U ''  ''), PyFloat FNaN, PyTs second_of_january, PyStr (U ''3.000,00'')]"
  let ?r2 = "[PyStr (U ''  ''), PyFloat FNaN, PyTs second_of_january, PyFloat (Fin 3000)]"
  let ?r3 = "[PyStr (U ''  ''), PyStr (U ''nan''), PyTs second_of_january, PyFloat (Fin 3000)]"
  have d1: "raw_table\<lparr>df_columns := ?cs\<rparr> = \<lparr>df_columns = ?cs, df_rows = [?r0]\<rparr>"
    by (simp add: raw_table_def)
  have a: "apply_column_stats (money_cell spec_lib) Taxa (\<lparr>df_columns = ?cs, df_rows = [?r0]\<rparr>, [])
           = Inr (\<lparr>df_columns = ?cs, df_rows = [?r0]\<rparr>, [])"
    by (simp add: apply_column_stats_def internal_indices
          del: col_index.simps)
  have b: "apply_column_stats (date_cell spec_lib) Emissao (\<lparr>df_columns = ?cs, df_rows = [?r0]\<rparr>, [])
           = Inr (\<lparr>df_columns = ?cs, df_rows = [?r1]\<rparr>, normalized_stats)"
    by (simp add: apply_column_stats_def internal_indices apply_with_stats_def Let_def
          bind_result_def series_def set_series_def date_cell_example notna_count_def
          normalized_stats_def
          del: col_index.simps)
  have c: "apply_column (date_cell spec_lib) Data_Pagamento \<lparr>df_columns = ?cs, df_rows = [?r1]\<rparr>
           = Inr \<lparr>df_columns = ?cs, df_rows = [?r1]\<rparr>"
    by (simp add: apply_column_def internal_indices
          del: col_index.simps)
  have d: "apply_columns (money_cell spec_lib)
             [Vlr_Liberado, Valor_Cancelado, VALOR_PAGO, Valor_Devolvido]
             \<lparr>df_columns = ?cs, df_rows = [?r1]\<rparr>
           = Inr \<lparr>df_columns = ?cs, df_rows = [?r2]\<rparr>"
    by (simp add: apply_column_def internal_indices bind_result_def series_def set_series_def
          money_cell_example
          del: col_index.simps)
  have e: "apply_column (flag_cell spec_lib) Pago \<lparr>df_columns = ?cs, df_rows = [?r2]\<rparr>
           = Inr \<lparr>df_columns = ?cs, df_rows = [?r2]\<rparr>"
      "apply_column (flag_cell spec_lib) TED_Devolvida \<lparr>df_columns = ?cs, df_rows = [?r2]\<rparr>
           = Inr \<lparr>df_columns = ?cs, df_rows = [?r2]\<rparr>"
    by (simp_all add: apply_column_def internal_indices
          del: col_index.simps)
  have f: "apply_column (contract_cell spec_lib) Contrato \<lparr>df_columns = ?cs, df_rows = [?r2]\<rparr>
           = Inr \<lparr>df_columns = ?cs, df_rows = [?r3]\<rparr>"
    by (simp add: apply_column_def internal_indices bind_result_def series_def set_series_def
          contract_cell_nan
          del: col_index.simps)
  have g: "where_notnull \<lparr>df_columns = ?cs, df_rows = [?r3]\<rparr> = normalized_table"
    by (simp add: where_notnull_def normalized_table_def)
  show ?thesis
    unfolding normalize_dataframe_def Let_def missing_raw_table renamed_raw_table
      strip_internal_names d1
    by (simp add: a b c d e f g bind_result_def del: apply_columns.simps)
qed

lemma normalized_table_issues:
  "validate_dataframe spec_lib normalized_table
     = [Issue ERROR 0 (Some (U ''nan'')) None msg_cliente_vazio]"
proof -
  let ?cs = "[Cliente, Contrato, Emissao, Vlr_Liberado]"
  let ?r = "[PyStr (U ''  ''), PyStr (U ''nan''), PyTs second_of_january, PyFloat (Fin 3000)]"
  have c: "row_get ?cs ?r Cliente = PyStr (U ''  '')"
      "row_get ?cs ?r Contrato = PyStr (U ''nan'')"
      "row_get ?cs ?r Pago = PyNone"
      "row_get ?cs ?r VALOR_PAGO = PyNone"
      "row_get ?cs ?r TED_Devolvida = PyNone"
    by (simp_all add: row_get_def internal_indices del: col_index.simps)
  have s: "s_opt spec_lib (PyStr (U ''nan'')) = Some (U ''nan'')"
      "s_opt spec_lib (PyStr (U ''  '')) = None"
    unfolding s_opt_def Let_def by (simp_all add: text_defs)
  show ?thesis
    unfolding validate_refines spec_validate_def normalized_table_def
    by (simp add: spec_row_issues_def Let_def c s)
qed

subsection \<open>The pipeline\<close>

lemma bind_result_Inr:
  "bind_result m f = Inr y \<Longrightarrow> \<exists>x. m = Inr x \<and> f x = Inr y"
  by (cases m) (simp_all add: bind_result_def)

lemma other_column:
  "col_index Contrato cs = Some j \<Longrightarrow> c \<noteq> Contrato \<Longrightarrow> col_index c cs \<noteq> Some j"
  using col_index_Some [of Contrato cs j] col_index_Some [of c cs j] by auto

lemma other_names:
  "Taxa \<noteq> Contrato" "Emissao \<noteq> Contrato" "Data_Pagamento \<noteq> Contrato"
  "Vlr_Liberado \<noteq> Contrato" "Valor_Cancelado \<noteq> Contrato" "VALOR_PAGO \<noteq> Contrato"
  "Valor_Devolvido \<noteq> Contrato" "Pago \<noteq> Contrato" "TED_Devolvida \<noteq> Contrato"
  by (simp_all add: column_defs U_def)

lemma where_notnull_series:
  "list_all (\<lambda>r. j < length r) (df_rows d) \<Longrightarrow>
     series (where_notnull d) j = map (\<lambda>v. if isna v then PyNone else v) (series d j)"
  by (simp add: series_def where_notnull_def list_all_iff)

lemma where_notnull_lengths: "map length (df_rows (where_notnull d)) = map length (df_rows d)"
  by (simp add: where_notnull_def comp_def)

lemma normalize_contract_column:
  assumes n: "normalize_dataframe L df = Inr (df2, st)"
    and rect: "list_all (\<lambda>r. length r = length (df_columns df)) (df_rows df)"
    and j: "col_index Contrato (map py_strip (renamed_columns df)) = Some j"
  shows "df_columns df2 = map py_strip (renamed_columns df)
     \<and> map length (df_rows df2) = map length (df_rows df)
     \<and> series df2 j = map (\<lambda>v. PyStr (py_strip (py_str L v))) (series df j)"
proof -
  define df1 where "df1 = df\<lparr>df_columns := map py_strip (renamed_columns df)\<rparr>"
  have cols1: "df_columns df1 = map py_strip (renamed_columns df)"
    and rows1: "df_rows df1 = df_rows df"
    by (simp_all add: df1_def)
  have s1: "series df1 j = series df j"
    by (simp add: series_def rows1)
  from n have chain:
    "bind_result (apply_column_stats (money_cell L) Taxa (df1, [])) (\<lambda>ds.
     bind_result (apply_column_stats (date_cell L) Emissao ds) (\<lambda>(df2, stats).
     bind_result (apply_column (date_cell L) Data_Pagamento df2) (\<lambda>df3.
     bind_result (apply_columns (money_cell L)
                    [Vlr_Liberado, Valor_Cancelado, VALOR_PAGO, Valor_Devolvido] df3) (\<lambda>df4.
     bind_result (apply_column (flag_cell L) Pago df4) (\<lambda>df5.
     bind_result (apply_column (flag_cell L) TED_Devolvida df5) (\<lambda>df6.
     bind_result (apply_column (contract_cell L) Contrato df6) (\<lambda>df7.
     Inr (where_notnull df7, stats)))))))) = Inr (df2, st)"
    unfolding normalize_dataframe_def Let_def df1_def
    by (simp split: if_splits)
  from bind_result_Inr [OF chain] obtain da sa where
      a: "apply_column_stats (money_cell L) Taxa (df1, []) = Inr (da, sa)"
      and c1: "bind_result (apply_column_stats (date_cell L) Emissao (da, sa)) (\<lambda>(df2, stats).
     bind_result (apply_column (date_cell L) Data_Pagamento df2) (\<lambda>df3.
     bind_result (apply_columns (money_cell L)
                    [Vlr_Liberado, Valor_Cancelado, VALOR_PAGO, Valor_Devolvido] df3) (\<lambda>df4.
     bind_result (apply_column (flag_cell L) Pago df4) (\<lambda>df5.
     bind_result (apply_column (flag_cell L) TED_Devolvida df5) (\<lambda>df6.
     bind_result (apply_column (contract_cell L) Contrato df6) (\<lambda>df7.
     Inr (where_notnull df7, stats))))))) = Inr (df2, st)"
    by (cases "apply_column_stats (money_cell L) Taxa (df1, [])") auto
  from bind_result_Inr [OF c1] obtain db sb where
      b: "apply_column_stats (date_cell L) Emissao (da, sa) = Inr (db, sb)"
      and c2: "bind_result (apply_column (date_cell L) Data_Pagamento db) (\<lambda>df3.
     bind_result (apply_columns (money_cell L)
                    [Vlr_Liberado, Valor_Cancelado, VALOR_PAGO, Valor_Devolvido] df3) (\<lambda>df4.
     bind_result (apply_column (flag_cell L) Pago df4) (\<lambda>df5.
     bind_result (apply_column (flag_cell L) TED_Devolvida df5) (\<lambda>df6.
     bind_result (apply_column (contract_cell L) Contrato df6) (\<lambda>df7.
     Inr (where_notnull df7, sb)))))) = Inr (df2, st)"
    by (cases "apply_column_stats (date_cell L) Emissao (da, sa)") auto
  from bind_result_Inr [OF c2] obtain dc where
      c: "apply_column (date_cell L) Data_Pagamento db = Inr dc"
      and c3: "bind_result (apply_columns (money_cell L)
                    [Vlr_Liberado, Valor_Cancelado, VALOR_PAGO, Valor_Devolvido] dc) (\<lambda>df4.
     bind_result (apply_column (flag_cell L) Pago df4) (\<lambda>df5.
     bind_result (apply_column (flag_cell L) TED_Devolvida df5) (\<lambda>df6.
     bind_result (apply_column (contract_cell L) Contrato df6) (\<lambda>df7.
     Inr (where_notnull df7, sb))))) = Inr (df2, st)"
    by auto
  from bind_result_Inr [OF c3] obtain dd where
      d: "apply_columns (money_cell L)
            [Vlr_Liberado, Valor_Cancelado, VALOR_PAGO, Valor_Devolvido] dc = Inr dd"
      and c4: "bind_result (apply_column (flag_cell L) Pago dd) (\<lambda>df5.
     bind_result (apply_column (flag_cell L) TED_Devolvida df5) (\<lambda>df6.
     bind_result (apply_column (contract_cell L) Contrato df6) (\<lambda>df7.
     Inr (where_notnull df7, sb)))) = Inr (df2, st)"
    by auto
  from bind_result_Inr [OF c4] obtain de where
      e: "apply_column (flag_cell L) Pago dd = Inr de"
      and c5: "bind_result (apply_column (flag_cell L) TED_Devolvida de) (\<lambda>df6.
     bind_result (apply_column (contract_cell L) Contrato df6) (\<lambda>df7.
     Inr (where_notnull df7, sb))) = Inr (df2, st)"
    by auto
  from bind_result_Inr [OF c5] obtain dg where
      g: "apply_column (flag_cell L) TED_Devolvida de = Inr dg"
      and c6: "bind_result (apply_column (contract_cell L) Contrato dg) (\<lambda>df7.
     Inr (where_notnull df7, sb)) = Inr (df2, st)"
    by auto
  from bind_result_Inr [OF c6] obtain dh where
      h: "apply_column (contract_cell L) Contrato dg = Inr dh"
      and fin: "df2 = where_notnull dh"
    by auto
  have ja: "col_index Contrato (df_columns df1) = Some j"
    using j by (simp add: cols1)
  have ka: "keeps_column j df1 da"
    by (rule apply_column_stats_keeps [OF a other_column [OF ja other_names(1)]])
  then have jb: "col_index Contrato (df_columns da) = Some j"
    using ja by (simp add: keeps_column_def)
  have kb: "keeps_column j da db"
    by (rule apply_column_stats_keeps [OF b other_column [OF jb other_names(2)]])
  then have jc: "col_index Contrato (df_columns db) = Some j"
    using jb by (simp add: keeps_column_def)
  have kc: "keeps_column j db dc"
    by (rule apply_column_keeps [OF c other_column [OF jc other_names(3)]])
  then have jd: "col_index Contrato (df_columns dc) = Some j"
    using jc by (simp add: keeps_column_def)
  have kd: "keeps_column j dc dd"
    by (rule apply_columns_keeps [OF d]) (simp add: other_column [OF jd] other_names)
  then have je: "col_index Contrato (df_columns dd) = Some j"
    using jd by (simp add: keeps_column_def)
  have ke: "keeps_column j dd de"
    by (rule apply_column_keeps [OF e other_column [OF je other_names(8)]])
  then have jg: "col_index Contrato (df_columns de) = Some j"
    using je by (simp add: keeps_column_def)
  have kg: "keeps_column j de dg"
    by (rule apply_column_keeps [OF g other_column [OF jg other_names(9)]])
  then have jh: "col_index Contrato (df_columns dg) = Some j"
    using jg by (simp add: keeps_column_def)
  have k: "keeps_column j df1 dg"
    using ka kb kc kd ke kg by (blast intro: keeps_column_trans)
  then have colsg: "df_columns dg = df_columns df1"
    and leng: "map length (df_rows dg) = map length (df_rows df)"
    and serg: "series dg j = series df j"
    by (simp_all add: keeps_column_def rows1 s1)
  have "list_all (\<lambda>n. n = length (df_columns dg)) (map length (df_rows df))"
    using rect by (simp add: colsg cols1 list_all_iff renamed_columns_def)
  then have rectg: "list_all (\<lambda>r. length r = length (df_columns dg)) (df_rows dg)"
    unfolding leng [symmetric] by (simp add: list_all_iff)
  from apply_contract_column [OF h jh rectg]
  have colsh: "df_columns dh = df_columns dg"
    and lenh: "map length (df_rows dh) = map length (df_rows dg)"
    and serh: "series dh j = map (\<lambda>v. PyStr (py_strip (py_str L v))) (series dg j)"
    by simp_all
  from jh have "j < length (df_columns dg)"
    by (simp add: col_index_Some)
  with rectg have "list_all (\<lambda>n. j < n) (map length (df_rows dg))"
    by (simp add: list_all_iff)
  then have "list_all (\<lambda>r. j < length r) (df_rows dh)"
    unfolding lenh [symmetric] by (simp add: list_all_iff)
  then have "series df2 j = map (\<lambda>v. if isna v then PyNone else v) (series dh j)"
    unfolding fin by (rule where_notnull_series)
  then have "series df2 j = map (\<lambda>v. PyStr (py_strip (py_str L v))) (series df j)"
    by (simp add: serh serg comp_def)
  moreover have "df_columns df2 = map py_strip (renamed_columns df)"
    by (simp add: fin where_notnull_def colsh colsg cols1)
  moreover have "map length (df_rows df2) = map length (df_rows df)"
    using lenh leng by (simp add: fin where_notnull_lengths)
  ultimately show ?thesis by simp
qed

subsection \<open>Missing required columns\<close>

lemma missing_columns_set:
  "set (missing_columns df) = set REQUIRED_COLUMNS - set (renamed_columns df)"
  by (auto simp: missing_columns_def)

lemma missing_columns_nonempty:
  "\<not> set REQUIRED_COLUMNS \<subseteq> set (renamed_columns df) \<Longrightarrow> missing_columns df \<noteq> []"
  using missing_columns_set [of df] by auto

lemma normalize_excel_missing:
  "missing_columns df \<noteq> [] \<Longrightarrow>
     normalize_excel L clk df inp outp strict fs
       = (Inl (ValueError (RequiredColumnsMissing (missing_columns df))), fs)"
  by (simp add: normalize_excel_def normalize_dataframe_def Let_def)

text \<open>
  C9: when, after canonicalization and renaming, a required column (Cliente, Contrato,
  Emissao, Vlr Liberado) is not among the labels, the pipeline raises the error that
  names the missing columns (those and only those, sorted), and the file system is
  what it was: no run directory and no artifact has been created.
\<close>

theorem required_columns_abort:
  assumes "\<not> set REQUIRED_COLUMNS \<subseteq> set (renamed_columns df)"
  shows "normalize_excel L clk df inp outp strict fs
           = (Inl (ValueError (RequiredColumnsMissing (missing_columns df))), fs)
     \<and> missing_columns df \<noteq> []
     \<and> set (missing_columns df) = set REQUIRED_COLUMNS - set (renamed_columns df)
     \<and> sorted (missing_columns df)"
  using assms
  by (simp add: normalize_excel_missing missing_columns_nonempty missing_columns_set)
     (simp add: missing_columns_def)

theorem required_columns_abort_witness:
  "normalize_excel spec_lib example_clock raw_table_short example_input example_output False
      empty_fs
     = (Inl (ValueError (RequiredColumnsMissing [Contrato])), empty_fs)"
proof -
  have h: "\<not> set REQUIRED_COLUMNS \<subseteq> set (renamed_columns raw_table_short)"
    unfolding renamed_raw_table_short REQUIRED_COLUMNS_def
    by (simp add: column_defs N_ordinal_Contrato_def U_def)
  from required_columns_abort [OF h, THEN conjunct1, of spec_lib example_clock example_input
      example_output False empty_fs]
  show ?thesis
    by (simp add: missing_raw_table_short)
qed

subsection \<open>Strict mode\<close>

lemma has_errors_nonempty: "has_errors xs \<Longrightarrow> xs \<noteq> []"
  by (auto simp: has_errors_def)

lemma mkdir_parents_self: "p \<in> dirs (mkdir_parents p fs)"
proof -
  have "take (length p) p \<in> (\<lambda>n. take n p) ` {0..<Suc (length p)}"
    by (rule imageI) simp
  then show ?thesis
    by (simp add: mkdir_parents_def)
qed

lemma mkdir_parents_keeps: "d \<in> dirs fs \<Longrightarrow> d \<in> dirs (mkdir_parents q fs)"
  by (simp add: mkdir_parents_def)

lemma mkdir_parents_files: "files (mkdir_parents q fs) = files fs"
  by (simp add: mkdir_parents_def)

lemma strict_run:
  assumes "normalize_dataframe L df = Inr (df2, st)"
    and "has_errors (validate_dataframe L df2)"
  shows "fst (normalize_excel L clk df inp outp True fs) = Inl (ValueError StrictIssues)
     \<and> files (snd (normalize_excel L clk df inp outp True fs))
         = (files fs)((path_parent outp @ [U ''runs'', run_stamp clk]) @ [U ''issues.csv'']
              \<mapsto> IssuesCsv (validate_dataframe L df2))
     \<and> path_parent outp @ [U ''runs'', run_stamp clk]
         \<in> dirs (snd (normalize_excel L clk df inp outp True fs))"
proof -
  from assms(2) have ne: "validate_dataframe L df2 \<noteq> []"
    by (rule has_errors_nonempty)
  show ?thesis
    unfolding normalize_excel_def make_run_dir_def write_issues_csv_def Let_def
    using assms ne
    by (simp add: mkdir_parents_files mkdir_parents_self mkdir_parents_keeps path_parent_def)
qed

lemma wf_raw_table:
  "wf_dataframe (raw_table\<lparr>df_columns := map py_strip (renamed_columns raw_table)\<rparr>)"
  unfolding renamed_raw_table strip_internal_names
  by (simp add: wf_dataframe_def raw_table_def column_defs U_def)

lemma normalized_table_has_errors: "has_errors (validate_dataframe spec_lib normalized_table)"
  unfolding normalized_table_issues
  by (simp add: has_errors_def Issue_def)

lemma example_run_dir_eq:
  "path_parent example_output @ [U ''runs'', run_stamp example_clock] = example_run_dir"
  by (simp add: path_parent_def example_output_def example_clock_def example_run_dir_def)

text \<open>
  C1, as stated: in strict mode with an ERROR issue, the normalized file, the issues file
  and the summary are all in the run directory when the failure is raised. On the
  example table the failure is raised, and neither the normalized file nor the summary
  is there.
\<close>

theorem strict_failure_without_workbook:
  "normalize_dataframe spec_lib raw_table = Inr (normalized_table, normalized_stats)
   \<and> has_errors (validate_dataframe spec_lib normalized_table)
   \<and> fst (normalize_excel spec_lib example_clock raw_table example_input example_output True
            empty_fs) = Inl (ValueError StrictIssues)
   \<and> files (snd (normalize_excel spec_lib example_clock raw_table example_input
                    example_output True empty_fs)) (example_run_dir @ [U ''o.xlsx'']) = None
   \<and> files (snd (normalize_excel spec_lib example_clock raw_table example_input
                    example_output True empty_fs)) (example_run_dir @ [U ''summary.json''])
       = None"
  using strict_run [OF normalize_raw_table normalized_table_has_errors,
      of example_clock example_input example_output empty_fs]
    normalize_raw_table normalized_table_has_errors
  by (simp add: example_run_dir_eq empty_fs_def example_run_dir_def U_def)

text \<open>
  C1, amended: in strict mode, when validation of the normalized table produced at
  least one ERROR issue, the pipeline creates the run directory, writes the issues file
  and then raises the strict-mode failure; at that moment the issues file is the only
  file the run has written (the normalized spreadsheet and the summary are not
  written).
\<close>

theorem strict_failure_issues_only:
  assumes "wf_dataframe (df\<lparr>df_columns := map py_strip (renamed_columns df)\<rparr>)"
    and "normalize_dataframe L df = Inr (df2, st)"
    and "has_errors (validate_dataframe L df2)"
  shows "fst (normalize_excel L clk df inp outp True fs) = Inl (ValueError StrictIssues)
     \<and> files (snd (normalize_excel L clk df inp outp True fs))
         = (files fs)((path_parent outp @ [U ''runs'', run_stamp clk]) @ [U ''issues.csv'']
              \<mapsto> IssuesCsv (validate_dataframe L df2))
     \<and> path_parent outp @ [U ''runs'', run_stamp clk]
         \<in> dirs (snd (normalize_excel L clk df inp outp True fs))"
  using assms(2,3) by (rule strict_run)

theorem strict_failure_issues_only_witness:
  "fst (normalize_excel spec_lib example_clock raw_table example_input example_output True
          empty_fs) = Inl (ValueError StrictIssues)
   \<and> files (snd (normalize_excel spec_lib example_clock raw_table example_input
                    example_output True empty_fs))
       = Map.empty(example_run_dir @ [U ''issues.csv'']
            \<mapsto> IssuesCsv [Issue ERROR 0 (Some (U ''nan'')) None msg_cliente_vazio])
   \<and> example_run_dir \<in> dirs (snd (normalize_excel spec_lib example_clock raw_table
                                     example_input example_output True empty_fs))"
  using strict_failure_issues_only [OF wf_raw_table normalize_raw_table
      normalized_table_has_errors, of example_clock example_input example_output empty_fs]
  by (simp add: example_run_dir_eq normalized_table_issues empty_fs_def)

subsection \<open>A missing contract cell\<close>

lemma no_contrato_vazio:
  "s_opt L (row_get cs r Contrato) \<noteq> None \<Longrightarrow>
     msg_contrato_vazio \<notin> set (map message (spec_row_issues L cs idx r))"
  unfolding spec_row_issues_def Let_def
  by (auto simp: Issue_def message_defs U_def)

lemma strip_None_nan:
  "py_strip (U ''None'') = U ''None''" "py_strip (U ''nan'') = U ''nan''"
  "U ''None'' \<noteq> []" "U ''nan'' \<noteq> []"
  by (simp_all add: text_defs)

text \<open>
  C10: for a well-formed table that normalization accepts, a contract cell that is
  missing (\<open>None\<close> or NaN) becomes the text \<open>None\<close> or \<open>nan\<close> in the normalized table,
  and the validator run on the normalized table has no \<open>Contrato vazio\<close> issue for that
  row.
\<close>

theorem missing_contract_becomes_text:
  assumes "wf_dataframe (df\<lparr>df_columns := map py_strip (renamed_columns df)\<rparr>)"
    and "normalize_dataframe L df = Inr (df2, st)"
    and "col_index Contrato (map py_strip (renamed_columns df)) = Some j"
    and "k < length (df_rows df)"
    and "df_rows df ! k ! j = PyNone \<or> df_rows df ! k ! j = PyFloat FNaN"
  shows "row_get (df_columns df2) (df_rows df2 ! k) Contrato
           = PyStr (if df_rows df ! k ! j = PyNone then U ''None'' else U ''nan'')
     \<and> msg_contrato_vazio
         \<notin> set (map message (issues_of_row k (validate_dataframe L df2)))"
proof -
  from assms(1) have rect: "list_all (\<lambda>r. length r = length (df_columns df)) (df_rows df)"
    by (simp add: wf_dataframe_def renamed_columns_def)
  note nc = normalize_contract_column [OF assms(2) rect assms(3)]
  from nc have "length (map length (df_rows df2)) = length (map length (df_rows df))"
    by simp
  then have len: "length (df_rows df2) = length (df_rows df)"
    by simp
  from nc have "series df2 j ! k = map (\<lambda>v. PyStr (py_strip (py_str L v))) (series df j) ! k"
    by simp
  with assms(4) len have cell: "df_rows df2 ! k ! j = PyStr (py_strip (py_str L (df_rows df ! k ! j)))"
    by (simp add: series_def)
  from nc assms(3) have "row_get (df_columns df2) (df_rows df2 ! k) Contrato = df_rows df2 ! k ! j"
    by (simp add: row_get_def)
  with cell assms(5) have v: "row_get (df_columns df2) (df_rows df2 ! k) Contrato
           = PyStr (if df_rows df ! k ! j = PyNone then U ''None'' else U ''nan'')"
    by (auto simp: strip_None_nan)
  then have "s_opt L (row_get (df_columns df2) (df_rows df2 ! k) Contrato) \<noteq> None"
    by (simp add: s_opt_def Let_def strip_None_nan)
  then have "msg_contrato_vazio
      \<notin> set (map message (spec_row_issues L (df_columns df2) k (df_rows df2 ! k)))"
    by (rule no_contrato_vazio)
  moreover from assms(4) len have "issues_of_row k (validate_dataframe L df2)
      = spec_row_issues L (df_columns df2) k (df_rows df2 ! k)"
    by (simp add: issues_of_row_validate)
  ultimately show ?thesis
    using v by simp
qed

theorem missing_contract_becomes_text_witness:
  "row_get (df_columns normalized_table) (df_rows normalized_table ! 0) Contrato
     = PyStr (U ''nan'')
   \<and> msg_contrato_vazio
       \<notin> set (map message (issues_of_row 0 (validate_dataframe spec_lib normalized_table)))"
proof -
  have j: "col_index Contrato (map py_strip (renamed_columns raw_table)) = Some (Suc 0)"
    unfolding renamed_raw_table strip_internal_names by (rule internal_indices)
  have k: "0 < length (df_rows raw_table)"
    by (simp add: raw_table_def)
  have c: "df_rows raw_table ! 0 ! Suc 0 = PyNone \<or> df_rows raw_table ! 0 ! Suc 0 = PyFloat FNaN"
    by (simp add: raw_table_def)
  have c': "df_rows raw_table ! 0 ! Suc 0 \<noteq> PyNone"
    by (simp add: raw_table_def)
  from missing_contract_becomes_text [OF wf_raw_table normalize_raw_table j k c] c'
  show ?thesis by simp
qed

end
